theory Spec2Isabelle
  imports Main "HOL-Library.Word" "HOL-Library.AList" "HOL-Library.Multiset"
begin

section \<open>Data model of the registry package (registry.go)\<close>

text \<open>
  The structs of \<^verbatim>\<open>registry.go\<close> as records.  Go's \<^verbatim>\<open>int64\<close> is a 64-bit word
  (read with \<open>sint\<close>), a slice is a list (a nil slice and an empty one are both \<open>[]\<close>),
  an \<^verbatim>\<open>interface{}\<close> field holds the raw JSON text of whatever was decoded into it.
  Where two structs of the source use one field name, the later record prefixes it.
\<close>

record Registry =
  Host :: string
  Username :: string
  Password :: string
  Repository :: string

record repositories =
  Images :: "string list"

record imageTags =
  Name :: string
  Tags :: "string list"

record layerInfo =
  MediaType :: string
  Size :: "64 word"
  Digest :: string

record ImageManifest =
  SchemaVersion :: "64 word"
  ManifestMediaType :: string
  Config :: layerInfo
  Layers :: "layerInfo list"

record checksum =
  Sha1 :: string
  Sha256 :: string

record asset =
  DownloadURL :: string
  Path :: string
  ID :: string
  AssetRepository :: string
  Format :: string
  Checksum :: checksum

record item =
  ItemID :: string
  ItemRepository :: string
  ItemFormat :: string
  Group :: "string option"
  ItemName :: string
  Version :: string
  Assets :: "asset list"

record SearchAssets =
  Items :: "item list"
  ContinuationToken :: "string option"

text \<open>The zero values Go gives a freshly declared variable of each struct type.\<close>

definition zero_Registry :: Registry where
  "zero_Registry = \<lparr>Host = [], Username = [], Password = [], Repository = []\<rparr>"

definition zero_repositories :: repositories where
  "zero_repositories = \<lparr>Images = []\<rparr>"

definition zero_imageTags :: imageTags where
  "zero_imageTags = \<lparr>Name = [], Tags = []\<rparr>"

definition zero_layerInfo :: layerInfo where
  "zero_layerInfo = \<lparr>MediaType = [], Size = 0, Digest = []\<rparr>"

definition zero_ImageManifest :: ImageManifest where
  "zero_ImageManifest =
     \<lparr>SchemaVersion = 0, ManifestMediaType = [], Config = zero_layerInfo, Layers = []\<rparr>"

definition zero_SearchAssets :: SearchAssets where
  "zero_SearchAssets = \<lparr>Items = [], ContinuationToken = None\<rparr>"

definition acceptHeader :: string where
  "acceptHeader = ''application/vnd.docker.distribution.manifest.v2+json''"

definition acceptHeaderJson :: string where
  "acceptHeaderJson = ''application/json''"

definition credentialsFile :: string where
  "credentialsFile = ''.credentials''"

section \<open>Errors, panics, HTTP exchanges and the trace of effects\<close>

text \<open>
  Go's \<^verbatim>\<open>error\<close> values.  The errors the repository builds itself are one constructor
  per format string; an error handed back by a library call (\<^verbatim>\<open>http.NewRequest\<close>,
  \<^verbatim>\<open>client.Do\<close>, \<^verbatim>\<open>json.Decoder.Decode\<close>, \<^verbatim>\<open>time.Parse\<close>, \<^verbatim>\<open>os.Stat\<close>,
  \<^verbatim>\<open>toml.DecodeFile\<close>) is \<open>LibError\<close> with its text.
  \<^item> \<open>HTTPCode c\<close> is \<^verbatim>\<open>fmt.Errorf("HTTP Code: %d", c)\<close>;
  \<^item> \<open>HTTPCodeDelete c a i t\<close> is
    \<^verbatim>\<open>fmt.Errorf("HTTP Code: %d, Failed to delete image by assetId: %s, %s:%s", c, a, i, t)\<close>;
  \<^item> \<open>FileNotFound f e\<close> is \<^verbatim>\<open>fmt.Errorf("%s file not found: %v", f, e)\<close>;
  \<^item> \<open>ExitError e n\<close> is \<^verbatim>\<open>cli.NewExitError(e.Error(), n)\<close>.
\<close>

datatype error =
    LibError string
  | HTTPCode int
  | HTTPCodeDelete int string string string
  | FileNotFound string error
  | ExitError error int

text \<open>
  A Go function either returns or the runtime panics; the only panics the modelled code
  can raise are the bounds checks of an index and of a slice expression.
\<close>

datatype panic = IndexOutOfRange nat nat | SliceBoundsOutOfRange int nat

datatype 'a outcome = Returned 'a | Panicked panic

text \<open>Go's \<^verbatim>\<open>xs[i]\<close>: the runtime checks the index against the length.\<close>

definition index :: "'a list \<Rightarrow> nat \<Rightarrow> 'a outcome" where
  "index xs i = (if i < length xs then Returned (xs ! i) else Panicked (IndexOutOfRange i (length xs)))"

text \<open>
  Go's \<^verbatim>\<open>xs[:n]\<close>.  The runtime checks \<open>0 \<le> n \<le> cap xs\<close>; a list has no spare
  capacity, so the model takes the capacity to be the length (a slice with spare capacity
  would expose elements of its backing array beyond the length instead of panicking).
\<close>

definition slice_to :: "'a list \<Rightarrow> int \<Rightarrow> 'a list outcome" where
  "slice_to xs n =
     (if 0 \<le> n \<and> n \<le> int (length xs) then Returned (take (nat n) xs)
      else Panicked (SliceBoundsOutOfRange n (length xs)))"

type_synonym Time = int

record request =
  Method :: string
  URL :: string
  BasicAuth :: "string \<times> string"
  Accept :: string

text \<open>
  What the code reads of an \<^verbatim>\<open>http.Response\<close>: the status code, \<^verbatim>\<open>Header.Get\<close>
  (the empty string for a header that is absent) and the body.
\<close>

record response =
  StatusCode :: int
  Header_Get :: "string \<Rightarrow> string"
  Body :: string

text \<open>
  The lines the commands print, one constructor per format string:
  \<^item> \<open>WillBeDeleted i t\<close>: \<^verbatim>\<open>"%s:%s image will be deleted ...\n"\<close>;
  \<^item> \<open>SuccessfulDeleted i t\<close>: \<^verbatim>\<open>"%s:%s has been successful deleted\n"\<close>;
  \<^item> \<open>NoAssetsFound i t\<close>: \<^verbatim>\<open>"No assets found for %s:%s\n"\<close>;
  \<^item> \<open>OnlyAvailable n\<close>: \<^verbatim>\<open>"Only %d images are available\n"\<close>;
  \<^item> \<open>SpecifyImageName\<close>: \<^verbatim>\<open>"You should specify the image name\n"\<close>;
  \<^item> \<open>SpecifyTagOrKeep\<close>:
    \<^verbatim>\<open>"You should either specify the tag or how many images you want to keep\n"\<close>;
  \<^item> \<open>TotalSize n i\<close>: \<^verbatim>\<open>"%d %s\n"\<close>.
\<close>

datatype message =
    WillBeDeleted string string
  | SuccessfulDeleted string string
  | NoAssetsFound string string
  | OnlyAvailable nat
  | SpecifyImageName
  | SpecifyTagOrKeep
  | TotalSize int string

text \<open>
  The effects of a run, oldest first: a request handed to \<^verbatim>\<open>client.Do\<close>, a line
  printed, \<^verbatim>\<open>cli.ShowSubcommandHelp\<close>.
\<close>

datatype event = Sent request | Stdout message | ShowSubcommandHelp

fun sent :: "event list \<Rightarrow> request list" where
  "sent [] = []"
| "sent (Sent q # es) = q # sent es"
| "sent (_ # es) = sent es"

datatype stat = StatOK | StatNotExist error | StatError error

text \<open>
  Everything outside the repository that the code calls, as parameters of the model:
  \<^item> \<open>http_NewRequest m u\<close>: the error of \<^verbatim>\<open>http.NewRequest(m, u, nil)\<close>, if any;
  \<^item> \<open>client_Do h q\<close>: what the network answers to request \<open>q\<close> after the requests
    \<open>h\<close> this run has already sent: a transport error or a response;
  \<^item> \<open>decode_\<dots> b v\<close>: \<^verbatim>\<open>json.NewDecoder(body).Decode(&v)\<close> on body \<open>b\<close> and a
    destination holding \<open>v\<close>: the value it leaves in the destination and its error, if any;
  \<^item> \<open>time_Parse l s\<close>: \<^verbatim>\<open>time.Parse(l, s)\<close>; \<open>time_Now\<close>: the reading of
    \<^verbatim>\<open>time.Now()\<close>;
  \<^item> \<open>os_Stat\<close> and \<open>toml_DecodeFile\<close>: the credentials file.
\<close>

record env =
  http_NewRequest :: "string \<Rightarrow> string \<Rightarrow> error option"
  client_Do :: "request list \<Rightarrow> request \<Rightarrow> error + response"
  decode_repositories :: "string \<Rightarrow> repositories \<Rightarrow> repositories \<times> error option"
  decode_imageTags :: "string \<Rightarrow> imageTags \<Rightarrow> imageTags \<times> error option"
  decode_ImageManifest :: "string \<Rightarrow> ImageManifest \<Rightarrow> ImageManifest \<times> error option"
  decode_SearchAssets :: "string \<Rightarrow> SearchAssets \<Rightarrow> SearchAssets \<times> error option"
  time_Parse :: "string \<Rightarrow> string \<Rightarrow> error + Time"
  time_Now :: Time
  os_Stat :: "string \<Rightarrow> stat"
  toml_DecodeFile :: "string \<Rightarrow> Registry \<Rightarrow> Registry \<times> error option"

definition RFC1123 :: string where
  "RFC1123 = ''Mon, 02 Jan 2006 15:04:05 MST''"

section \<open>The registry client (registry.go)\<close>

text \<open>The URLs the operations build with \<^verbatim>\<open>fmt.Sprintf\<close>.\<close>

definition catalogURL :: "Registry \<Rightarrow> string" where
  "catalogURL r = Host r @ ''/repository/'' @ Repository r @ ''/v2/_catalog''"

definition tagsURL :: "Registry \<Rightarrow> string \<Rightarrow> string" where
  "tagsURL r img = Host r @ ''/repository/'' @ Repository r @ ''/v2/'' @ img @ ''/tags/list''"

definition manifestURL :: "Registry \<Rightarrow> string \<Rightarrow> string \<Rightarrow> string" where
  "manifestURL r img tag =
     Host r @ ''/repository/'' @ Repository r @ ''/v2/'' @ img @ ''/manifests/'' @ tag"

definition searchURL :: "Registry \<Rightarrow> string \<Rightarrow> string \<Rightarrow> string" where
  "searchURL r img tag =
     Host r @ ''/service/rest/v1/search?repository='' @ Repository r
       @ ''&name='' @ img @ ''&version='' @ tag"

definition assetURL :: "Registry \<Rightarrow> string \<Rightarrow> string" where
  "assetURL r assetId = Host r @ ''/service/rest/v1/assets/'' @ assetId"

text \<open>
  Every operation of the client opens with the same lines: \<^verbatim>\<open>http.NewRequest\<close>, return
  its error; \<^verbatim>\<open>SetBasicAuth\<close>, \<^verbatim>\<open>Header.Add("Accept", \<dots>)\<close>; \<^verbatim>\<open>client.Do\<close>, return
  its error.  \<open>do_request\<close> is that shared opening.
\<close>

definition do_request ::
  "env \<Rightarrow> Registry \<Rightarrow> string \<Rightarrow> string \<Rightarrow> string \<Rightarrow> event list \<Rightarrow> (error + response) \<times> event list"
where
  "do_request e r m u a tr =
     (case http_NewRequest e m u of
        Some err \<Rightarrow> (Inl err, tr)
      | None \<Rightarrow>
          (let req = \<lparr>Method = m, URL = u, BasicAuth = (Username r, Password r), Accept = a\<rparr>
           in (client_Do e (sent tr) req, tr @ [Sent req])))"

text \<open>
  \<open>answers e r m u a tr resp\<close>: after trace \<open>tr\<close>, the request for \<open>u\<close> is built
  without error and the network answers it with the response \<open>resp\<close>.
\<close>

definition answers ::
  "env \<Rightarrow> Registry \<Rightarrow> string \<Rightarrow> string \<Rightarrow> string \<Rightarrow> event list \<Rightarrow> response \<Rightarrow> bool"
where
  "answers e r m u a tr resp =
     (http_NewRequest e m u = None \<and>
      client_Do e (sent tr)
        \<lparr>Method = m, URL = u, BasicAuth = (Username r, Password r), Accept = a\<rparr> = Inr resp)"

definition NewRegistry :: "env \<Rightarrow> Registry \<times> error option" where
  "NewRegistry e =
     (case os_Stat e credentialsFile of
        StatNotExist err \<Rightarrow> (zero_Registry, Some (FileNotFound credentialsFile err))
      | StatError err \<Rightarrow> (zero_Registry, Some err)
      | StatOK \<Rightarrow>
          (case toml_DecodeFile e credentialsFile zero_Registry of
             (r, Some err) \<Rightarrow> (r, Some err)
           | (r, None) \<Rightarrow> (r, None)))"

definition ListImages ::
  "env \<Rightarrow> Registry \<Rightarrow> event list \<Rightarrow> (string list \<times> error option) \<times> event list"
where
  "ListImages e r tr =
     (case do_request e r ''GET'' (catalogURL r) acceptHeader tr of
        (Inl err, tr') \<Rightarrow> (([], Some err), tr')
      | (Inr resp, tr') \<Rightarrow>
          if StatusCode resp \<noteq> 200 then (([], Some (HTTPCode (StatusCode resp))), tr')
          else ((Images (fst (decode_repositories e (Body resp) zero_repositories)), None), tr'))"

definition ListTagsByImage ::
  "env \<Rightarrow> Registry \<Rightarrow> string \<Rightarrow> event list \<Rightarrow> (string list \<times> error option) \<times> event list"
where
  "ListTagsByImage e r img tr =
     (case do_request e r ''GET'' (tagsURL r img) acceptHeader tr of
        (Inl err, tr') \<Rightarrow> (([], Some err), tr')
      | (Inr resp, tr') \<Rightarrow>
          if StatusCode resp \<noteq> 200 then (([], Some (HTTPCode (StatusCode resp))), tr')
          else ((Tags (fst (decode_imageTags e (Body resp) zero_imageTags)), None), tr'))"

definition ImageManifest ::
  "env \<Rightarrow> Registry \<Rightarrow> string \<Rightarrow> string \<Rightarrow> event list
     \<Rightarrow> (ImageManifest \<times> error option) \<times> event list"
where
  "ImageManifest e r img tag tr =
     (case do_request e r ''GET'' (manifestURL r img tag) acceptHeader tr of
        (Inl err, tr') \<Rightarrow> ((zero_ImageManifest, Some err), tr')
      | (Inr resp, tr') \<Rightarrow>
          if StatusCode resp \<noteq> 200
          then ((zero_ImageManifest, Some (HTTPCode (StatusCode resp))), tr')
          else ((fst (decode_ImageManifest e (Body resp) zero_ImageManifest), None), tr'))"

definition SearchAssets ::
  "env \<Rightarrow> Registry \<Rightarrow> string \<Rightarrow> string \<Rightarrow> event list
     \<Rightarrow> (SearchAssets \<times> error option) \<times> event list"
where
  "SearchAssets e r img tag tr =
     (case do_request e r ''GET'' (searchURL r img tag) acceptHeaderJson tr of
        (Inl err, tr') \<Rightarrow> ((zero_SearchAssets, Some err), tr')
      | (Inr resp, tr') \<Rightarrow>
          if StatusCode resp \<noteq> 200
          then ((zero_SearchAssets, Some (HTTPCode (StatusCode resp))), tr')
          else ((fst (decode_SearchAssets e (Body resp) zero_SearchAssets), None), tr'))"

definition DeleteImageByTagByAssetId ::
  "env \<Rightarrow> Registry \<Rightarrow> string \<Rightarrow> string \<Rightarrow> string \<Rightarrow> event list \<Rightarrow> error option \<times> event list"
where
  "DeleteImageByTagByAssetId e r assetId img tag tr =
     (case do_request e r ''DELETE'' (assetURL r assetId) acceptHeaderJson tr of
        (Inl err, tr') \<Rightarrow> (Some err, tr')
      | (Inr resp, tr') \<Rightarrow>
          if StatusCode resp \<noteq> 202
          then (Some (HTTPCodeDelete (StatusCode resp) assetId img tag), tr')
          else (None, tr'))"

text \<open>
  \<^verbatim>\<open>DeleteImageByTag\<close>: the search error is returned; the guard is on the length of
  \<open>Items\<close> alone; both index expressions are checked by the runtime; the value
  \<^verbatim>\<open>DeleteImageByTagByAssetId\<close> returns is dropped, the success line is printed and nil
  is returned whatever it was.
\<close>

definition DeleteImageByTag ::
  "env \<Rightarrow> Registry \<Rightarrow> string \<Rightarrow> string \<Rightarrow> event list \<Rightarrow> error option outcome \<times> event list"
where
  "DeleteImageByTag e r img tag tr =
     (case SearchAssets e r img tag tr of
        ((assets, Some err), tr1) \<Rightarrow> (Returned (Some err), tr1)
      | ((assets, None), tr1) \<Rightarrow>
          if length (Items assets) > 0 then
            (case index (Items assets) 0 of
               Panicked p \<Rightarrow> (Panicked p, tr1)
             | Returned it \<Rightarrow>
                 (case index (Assets it) 0 of
                    Panicked p \<Rightarrow> (Panicked p, tr1)
                  | Returned a \<Rightarrow>
                      (let tr2 = snd (DeleteImageByTagByAssetId e r (ID a) img tag tr1)
                       in (Returned None, tr2 @ [Stdout (SuccessfulDeleted img tag)]))))
          else (Returned None, tr1 @ [Stdout (NoAssetsFound img tag)]))"

text \<open>
  \<^verbatim>\<open>GetImageTagDate\<close>: every failing return carries \<^verbatim>\<open>time.Now()\<close>; on status 200 the
  header \<^verbatim>\<open>last-modified\<close> goes through \<^verbatim>\<open>time.Parse(time.RFC1123, \<dots>)\<close>.
\<close>

definition GetImageTagDate ::
  "env \<Rightarrow> Registry \<Rightarrow> string \<Rightarrow> string \<Rightarrow> event list \<Rightarrow> (Time \<times> error option) \<times> event list"
where
  "GetImageTagDate e r img tag tr =
     (case do_request e r ''GET'' (manifestURL r img tag) acceptHeader tr of
        (Inl err, tr') \<Rightarrow> ((time_Now e, Some err), tr')
      | (Inr resp, tr') \<Rightarrow>
          if StatusCode resp \<noteq> 200 then ((time_Now e, Some (HTTPCode (StatusCode resp))), tr')
          else (case time_Parse e RFC1123 (Header_Get resp ''last-modified'') of
                  Inl err \<Rightarrow> ((time_Now e, Some err), tr')
                | Inr t \<Rightarrow> ((t, None), tr')))"

section \<open>The numeric tag comparator\<close>

text \<open>
  Modelled from the spec: \<^verbatim>\<open>extractNumberFromString\<close> is called by the commands of
  \<^verbatim>\<open>cmd/nexus-cli\<close> but its definition is not among the source files.  The spec (4.2):
  scan the tag for the first contiguous run of digit characters, parse it as a base-10
  integer, and take 0 when there is no digit run.  Digit characters are \<^verbatim>\<open>0\<close> to
  \<^verbatim>\<open>9\<close>; the integer is unbounded (the spec gives no width).
\<close>

definition isDigit :: "char \<Rightarrow> bool" where
  "isDigit c = (c \<in> set ''0123456789'')"

definition digitValue :: "char \<Rightarrow> int" where
  "digitValue c = int (of_char c) - 48"

definition parseDecimal :: "string \<Rightarrow> int" where
  "parseDecimal ds = foldl (\<lambda>n c. 10 * n + digitValue c) 0 ds"

definition firstDigitRun :: "string \<Rightarrow> string" where
  "firstDigitRun s = takeWhile isDigit (dropWhile (\<lambda>c. \<not> isDigit c) s)"

definition extractNumberFromString :: "string \<Rightarrow> int" where
  "extractNumberFromString s = parseDecimal (firstDigitRun s)"

text \<open>The closure \<^verbatim>\<open>compareStringNumber\<close> of \<^verbatim>\<open>listTagsByImage\<close> and \<^verbatim>\<open>deleteImage\<close>.\<close>

definition compareStringNumber :: "string \<Rightarrow> string \<Rightarrow> bool" where
  "compareStringNumber str1 str2 = (extractNumberFromString str1 < extractNumberFromString str2)"

text \<open>
  Modelled from the spec: \<^verbatim>\<open>Compare(cmp).Sort(tags)\<close> is called by the commands but
  the type \<^verbatim>\<open>Compare\<close> and its method \<^verbatim>\<open>Sort\<close> are not among the source files.  The spec
  (4.2): the comparator is used as a strict less-than by a generic sort, which leaves the
  list ascending; the order among tags of equal number is not defined.  The model is an
  insertion sort that consults nothing but \<open>cmp\<close>.
\<close>

fun insert_less :: "('a \<Rightarrow> 'a \<Rightarrow> bool) \<Rightarrow> 'a \<Rightarrow> 'a list \<Rightarrow> 'a list" where
  "insert_less cmp x [] = [x]"
| "insert_less cmp x (y # ys) = (if cmp y x then y # insert_less cmp x ys else x # y # ys)"

definition Compare_Sort :: "('a \<Rightarrow> 'a \<Rightarrow> bool) \<Rightarrow> 'a list \<Rightarrow> 'a list" where
  "Compare_Sort cmp xs = foldr (insert_less cmp) xs []"

section \<open>The commands (cmd/nexus-cli)\<close>

text \<open>
  The loop of \<^verbatim>\<open>deleteImage\<close> over \<^verbatim>\<open>tags[:len(tags)-keep]\<close>: print the line, call
  \<^verbatim>\<open>r.DeleteImageByTag\<close>, drop what it returns, go on.  Only a panic ends it early.
\<close>

fun delete_loop ::
  "env \<Rightarrow> Registry \<Rightarrow> string \<Rightarrow> string list \<Rightarrow> event list \<Rightarrow> error option outcome \<times> event list"
where
  "delete_loop e r imgName [] tr = (Returned None, tr)"
| "delete_loop e r imgName (tag # tags) tr =
     (case DeleteImageByTag e r imgName tag (tr @ [Stdout (WillBeDeleted imgName tag)]) of
        (Panicked p, tr') \<Rightarrow> (Panicked p, tr')
      | (Returned _, tr') \<Rightarrow> delete_loop e r imgName tags tr')"

text \<open>
  \<^verbatim>\<open>deleteImage\<close>, with the three flags it reads (\<^verbatim>\<open>c.String("name")\<close>,
  \<^verbatim>\<open>c.String("tag")\<close>, \<^verbatim>\<open>c.Int("keep")\<close>) as arguments.  The tags are sorted before the
  error of \<^verbatim>\<open>ListTagsByImage\<close> is looked at.
\<close>

definition deleteImage ::
  "env \<Rightarrow> string \<Rightarrow> string \<Rightarrow> int \<Rightarrow> event list \<Rightarrow> error option outcome \<times> event list"
where
  "deleteImage e imgName tag keep tr =
     (if imgName = [] then (Returned None, tr @ [Stdout SpecifyImageName, ShowSubcommandHelp])
      else
        (case NewRegistry e of
           (r, Some err) \<Rightarrow> (Returned (Some (ExitError err 1)), tr)
         | (r, None) \<Rightarrow>
             if tag = [] then
               if keep = 0 then (Returned None, tr @ [Stdout SpecifyTagOrKeep, ShowSubcommandHelp])
               else
                 (case ListTagsByImage e r imgName tr of
                    ((tags0, err), tr1) \<Rightarrow>
                      (let tags = Compare_Sort compareStringNumber tags0 in
                       case err of
                         Some err' \<Rightarrow> (Returned (Some (ExitError err' 1)), tr1)
                       | None \<Rightarrow>
                           if int (length tags) \<ge> keep then
                             (case slice_to tags (int (length tags) - keep) of
                                Panicked p \<Rightarrow> (Panicked p, tr1)
                              | Returned ts \<Rightarrow> delete_loop e r imgName ts tr1)
                           else (Returned None, tr1 @ [Stdout (OnlyAvailable (length tags))])))
             else
               (case DeleteImageByTag e r imgName tag tr of
                  (Panicked p, tr1) \<Rightarrow> (Panicked p, tr1)
                | (Returned (Some err), tr1) \<Rightarrow> (Returned (Some (ExitError err 1)), tr1)
                | (Returned None, tr1) \<Rightarrow> (Returned None, tr1))))"

text \<open>
  \<^verbatim>\<open>showTotalImageSize\<close>.  The Go map \<^verbatim>\<open>sizeInfo\<close> is an association list with one
  entry per key; \<^verbatim>\<open>sizeInfo[layer.Digest] = layer.Size\<close> is \<open>AList.update\<close>.  Go ranges
  over a map in no fixed order; the total is a sum of 64-bit words, which no order changes.
\<close>

type_synonym sizeInfo = "(string \<times> 64 word) list"

definition record_layers :: "layerInfo list \<Rightarrow> sizeInfo \<Rightarrow> sizeInfo" where
  "record_layers layers m = foldl (\<lambda>m layer. AList.update (Digest layer) (Size layer) m) m layers"

fun size_loop ::
  "env \<Rightarrow> Registry \<Rightarrow> string \<Rightarrow> string list \<Rightarrow> sizeInfo \<Rightarrow> event list
     \<Rightarrow> (error + sizeInfo) \<times> event list"
where
  "size_loop e r imgName [] m tr = (Inr m, tr)"
| "size_loop e r imgName (tag # tags) m tr =
     (case ImageManifest e r imgName tag tr of
        ((manifest, Some err), tr') \<Rightarrow> (Inl (ExitError err 1), tr')
      | ((manifest, None), tr') \<Rightarrow>
          size_loop e r imgName tags (record_layers (Layers manifest) m) tr')"

definition totalSize :: "sizeInfo \<Rightarrow> 64 word" where
  "totalSize m = foldl (\<lambda>total (digest, size). total + size) 0 m"

definition showTotalImageSize ::
  "env \<Rightarrow> string \<Rightarrow> event list \<Rightarrow> error option \<times> event list"
where
  "showTotalImageSize e imgName tr =
     (if imgName = [] then (None, tr @ [ShowSubcommandHelp])
      else
        (case NewRegistry e of
           (r, Some err) \<Rightarrow> (Some (ExitError err 1), tr)
         | (r, None) \<Rightarrow>
             (case ListTagsByImage e r imgName tr of
                ((tags, Some err), tr1) \<Rightarrow> (Some (ExitError err 1), tr1)
              | ((tags, None), tr1) \<Rightarrow>
                  (case size_loop e r imgName tags [] tr1 of
                     (Inl err, tr2) \<Rightarrow> (Some err, tr2)
                   | (Inr m, tr2) \<Rightarrow>
                       (None, tr2 @ [Stdout (TotalSize (sint (totalSize m)) imgName)])))))"

section \<open>Reading a trace, and what the claims compare the code with\<close>

text \<open>The DELETE requests among the requests sent.\<close>

definition deletes :: "event list \<Rightarrow> request list" where
  "deletes tr = filter (\<lambda>q. Method q = ''DELETE'') (sent tr)"

text \<open>The (image, tag) pairs of the lines ``image will be deleted'', in the order printed.\<close>

fun announced :: "event list \<Rightarrow> (string \<times> string) list" where
  "announced [] = []"
| "announced (Stdout (WillBeDeleted i t) # es) = (i, t) # announced es"
| "announced (_ # es) = announced es"

text \<open>The URLs of the GET requests sent, in the order sent.\<close>

definition gets :: "event list \<Rightarrow> string list" where
  "gets tr = map URL (filter (\<lambda>q. Method q = ''GET'') (sent tr))"

text \<open>
  ``Call deleteTag for each of these tags, in order'' (spec 4.3): each tag is announced and
  \<^verbatim>\<open>DeleteImageByTag\<close> is called for it on the trace the call before it left.  The value
  is the trace after the last call, or \<open>None\<close> as soon as one of the calls panics.
\<close>

fun deleteTag_each ::
  "env \<Rightarrow> Registry \<Rightarrow> string \<Rightarrow> string list \<Rightarrow> event list \<Rightarrow> event list option"
where
  "deleteTag_each e r imgName [] tr = Some tr"
| "deleteTag_each e r imgName (tag # tags) tr =
     (case DeleteImageByTag e r imgName tag (tr @ [Stdout (WillBeDeleted imgName tag)]) of
        (Returned x, tr') \<Rightarrow> deleteTag_each e r imgName tags tr'
      | (Panicked p, tr') \<Rightarrow> None)"

text \<open>
  The value of a digit string read in base 10, position by position: the digit at index
  \<open>i\<close> of \<open>n\<close> digits weighs \<open>10 ^ (n - 1 - i)\<close>.
\<close>

definition decimal_value :: "string \<Rightarrow> int" where
  "decimal_value ds = (\<Sum>i < length ds. digitValue (ds ! i) * 10 ^ (length ds - 1 - i))"

text \<open>
  The manifests \<^verbatim>\<open>ImageManifest\<close> returns for the tags, asked one after the other, up to
  the first error: what the loop of \<^verbatim>\<open>showTotalImageSize\<close> gets to see.
\<close>

fun fetch_manifests ::
  "env \<Rightarrow> Registry \<Rightarrow> string \<Rightarrow> string list \<Rightarrow> event list
     \<Rightarrow> (error + ImageManifest list) \<times> event list"
where
  "fetch_manifests e r imgName [] tr = (Inr [], tr)"
| "fetch_manifests e r imgName (tag # tags) tr =
     (case ImageManifest e r imgName tag tr of
        ((manifest, Some err), tr') \<Rightarrow> (Inl err, tr')
      | ((manifest, None), tr') \<Rightarrow>
          (case fetch_manifests e r imgName tags tr' of
             (Inl err, tr'') \<Rightarrow> (Inl err, tr'')
           | (Inr ms, tr'') \<Rightarrow> (Inr (manifest # ms), tr'')))"

text \<open>All layers of a collection of manifests, in the order the loops visit them.\<close>

definition all_layers :: "ImageManifest list \<Rightarrow> layerInfo list" where
  "all_layers ms = concat (map Layers ms)"

text \<open>The digests that occur in a list of layers, as a set: each digest once.\<close>

definition digests :: "layerInfo list \<Rightarrow> string set" where
  "digests ls = Digest ` set ls"

text \<open>The size the last layer with digest \<open>d\<close> in the list declares (0 if there is none).\<close>

definition size_of :: "layerInfo list \<Rightarrow> string \<Rightarrow> 64 word" where
  "size_of ls d =
     (case filter (\<lambda>l. Digest l = d) ls of [] \<Rightarrow> 0 | l # ls' \<Rightarrow> Size (last (l # ls')))"

section \<open>A mock registry for concrete runs\<close>

text \<open>
  One concrete environment on which the operations are run below: a Nexus at
  \<^verbatim>\<open>http://nexus\<close> with the repository \<^verbatim>\<open>docker\<close>.  Its answers depend on the method
  and URL alone; a request it has no route for gets status 404.  Bodies are opaque to the
  code, so they are short tokens and the decoders are tables on them.
\<close>

definition demo_registry :: Registry where
  "demo_registry =
     \<lparr>Host = ''http://nexus'', Username = ''admin'', Password = ''secret'',
      Repository = ''docker''\<rparr>"

definition gone_registry :: Registry where
  "gone_registry = demo_registry\<lparr>Repository := ''gone''\<rparr>"

definition reply :: "int \<Rightarrow> string \<Rightarrow> string \<Rightarrow> response" where
  "reply code lastModified body =
     \<lparr>StatusCode = code,
      Header_Get = (\<lambda>k. if k = ''last-modified'' then lastModified else []),
      Body = body\<rparr>"

definition demo_routes :: "((string \<times> string) \<times> response) list" where
  "demo_routes =
     [((''GET'', catalogURL demo_registry), reply 200 [] ''<html>''),
      ((''GET'', tagsURL demo_registry ''app''), reply 200 [] ''tags:app''),
      ((''GET'', tagsURL demo_registry ''web''), reply 200 [] ''{name:5,tags:[v1]}''),
      ((''GET'', tagsURL demo_registry ''api''), reply 200 [] ''tags:api''),
      ((''GET'', tagsURL demo_registry ''old''), reply 200 [] ''<html>''),
      ((''GET'', manifestURL demo_registry ''old'' ''1''), reply 200 [] ''<html>''),
      ((''GET'', manifestURL demo_registry ''api'' ''1''),
         reply 200 ''Tue, 15 Aug 2023 10:00:00 GMT'' ''manifest:1''),
      ((''GET'', manifestURL demo_registry ''api'' ''2''), reply 200 [] ''manifest:2''),
      ((''GET'', searchURL demo_registry ''app'' ''latest''), reply 500 [] []),
      ((''GET'', searchURL demo_registry ''app'' ''v1''), reply 200 [] ''items:a1''),
      ((''GET'', searchURL demo_registry ''app'' ''v2''), reply 200 [] ''items:none''),
      ((''GET'', searchURL demo_registry ''app'' ''v3''), reply 200 [] ''items:bare''),
      ((''GET'', searchURL demo_registry ''app'' ''v10''), reply 200 [] ''items:a10''),
      ((''DELETE'', assetURL demo_registry ''a1''), reply 500 [] []),
      ((''DELETE'', assetURL demo_registry ''a10''), reply 202 [] [])]"

definition demo_Do :: "request list \<Rightarrow> request \<Rightarrow> error + response" where
  "demo_Do h q =
     (case map_of demo_routes (Method q, URL q) of
        Some resp \<Rightarrow> Inr resp
      | None \<Rightarrow> Inr (reply 404 [] []))"

definition demo_layer :: "string \<Rightarrow> 64 word \<Rightarrow> layerInfo" where
  "demo_layer d n =
     \<lparr>MediaType = ''application/vnd.docker.image.rootfs.diff.tar.gzip'', Size = n, Digest = d\<rparr>"

definition demo_asset :: "string \<Rightarrow> asset" where
  "demo_asset i =
     \<lparr>DownloadURL = [], Path = [], ID = i, AssetRepository = ''docker'', Format = ''docker'',
      Checksum = \<lparr>Sha1 = [], Sha256 = []\<rparr>\<rparr>"

definition demo_item :: "string \<Rightarrow> asset list \<Rightarrow> item" where
  "demo_item v as =
     \<lparr>ItemID = [], ItemRepository = ''docker'', ItemFormat = ''docker'', Group = None,
      ItemName = ''app'', Version = v, Assets = as\<rparr>"

text \<open>
  The decoders of the mock follow \<^verbatim>\<open>encoding/json\<close>: a body that is not JSON leaves the
  destination as it was and gives an error; a body in which one field has the wrong type
  (\<^verbatim>\<open>{name:5,tags:[v1]}\<close>: a number for the string \<^verbatim>\<open>name\<close>) gives an
  \<^verbatim>\<open>UnmarshalTypeError\<close> for that field and still fills the others (``Unmarshal skips
  that field and completes the unmarshaling as best it can'').
\<close>

definition demo_decode_repositories :: "string \<Rightarrow> repositories \<Rightarrow> repositories \<times> error option" where
  "demo_decode_repositories b v =
     (if b = ''repositories:app,web,api'' then (v\<lparr>Images := [''app'', ''web'', ''api'']\<rparr>, None)
      else (v, Some (LibError ''invalid character'')))"

definition demo_decode_imageTags :: "string \<Rightarrow> imageTags \<Rightarrow> imageTags \<times> error option" where
  "demo_decode_imageTags b v =
     (if b = ''tags:app''
      then (v\<lparr>Name := ''app'', Tags := [''v10'', ''v2'', ''v1'', ''latest'']\<rparr>, None)
      else if b = ''tags:api'' then (v\<lparr>Name := ''api'', Tags := [''1'', ''2'']\<rparr>, None)
      else if b = ''{name:5,tags:[v1]}''
      then (v\<lparr>Tags := [''v1'']\<rparr>, Some (LibError ''cannot unmarshal number into string''))
      else (v, Some (LibError ''invalid character'')))"

definition demo_decode_ImageManifest ::
  "string \<Rightarrow> ImageManifest \<Rightarrow> ImageManifest \<times> error option"
where
  "demo_decode_ImageManifest b v =
     (if b = ''manifest:1''
      then (v\<lparr>SchemaVersion := 2,
               Layers := [demo_layer ''sha256:aa'' 100, demo_layer ''sha256:bb'' 50]\<rparr>, None)
      else if b = ''manifest:2''
      then (v\<lparr>SchemaVersion := 2,
               Layers := [demo_layer ''sha256:aa'' 100, demo_layer ''sha256:cc'' 7]\<rparr>, None)
      else (v, Some (LibError ''invalid character'')))"

definition demo_decode_SearchAssets ::
  "string \<Rightarrow> SearchAssets \<Rightarrow> SearchAssets \<times> error option"
where
  "demo_decode_SearchAssets b v =
     (if b = ''items:a1'' then (v\<lparr>Items := [demo_item ''v1'' [demo_asset ''a1'']]\<rparr>, None)
      else if b = ''items:a10''
      then (v\<lparr>Items := [demo_item ''v10'' [demo_asset ''a10'', demo_asset ''b10'']]\<rparr>, None)
      else if b = ''items:bare'' then (v\<lparr>Items := [demo_item ''v3'' []]\<rparr>, None)
      else if b = ''items:none'' then (v, None)
      else (v, Some (LibError ''invalid character'')))"

definition demo_Parse :: "string \<Rightarrow> string \<Rightarrow> error + Time" where
  "demo_Parse layout s =
     (if layout = RFC1123 \<and> s = ''Tue, 15 Aug 2023 10:00:00 GMT'' then Inr 1692093600
      else Inl (LibError ''parsing time''))"

definition demo_env :: env where
  "demo_env =
     \<lparr>http_NewRequest = (\<lambda>m u. None),
      client_Do = demo_Do,
      decode_repositories = demo_decode_repositories,
      decode_imageTags = demo_decode_imageTags,
      decode_ImageManifest = demo_decode_ImageManifest,
      decode_SearchAssets = demo_decode_SearchAssets,
      time_Parse = demo_Parse,
      time_Now = 1700000000,
      os_Stat = (\<lambda>f. StatOK),
      toml_DecodeFile = (\<lambda>f v. (demo_registry, None))\<rparr>"

text \<open>
  The same registry listing the tags \<^verbatim>\<open>v10, v3, v12\<close> for every image; the search for
  \<^verbatim>\<open>app:v3\<close> returns an item without assets.
\<close>

definition bare_env :: env where
  "bare_env =
     demo_env\<lparr>decode_imageTags := (\<lambda>b v. (v\<lparr>Tags := [''v10'', ''v3'', ''v12'']\<rparr>, None))\<rparr>"

section \<open>Facts about the shared opening and the trace\<close>

lemmas demo_defs = demo_env_def demo_Do_def demo_routes_def demo_registry_def reply_def
  demo_decode_repositories_def demo_decode_imageTags_def demo_decode_ImageManifest_def
  demo_decode_SearchAssets_def demo_Parse_def demo_layer_def demo_asset_def demo_item_def
  catalogURL_def tagsURL_def manifestURL_def searchURL_def assetURL_def

lemma sent_append: "sent (xs @ ys) = sent xs @ sent ys"
  by (induction xs rule: sent.induct) simp_all

lemma do_request_answers:
  "answers e r m u a tr resp \<Longrightarrow>
     do_request e r m u a tr =
       (Inr resp, tr @ [Sent \<lparr>Method = m, URL = u, BasicAuth = (Username r, Password r), Accept = a\<rparr>])"
  by (simp add: answers_def do_request_def)

lemma do_request_Inr:
  "do_request e r m u a tr = (Inr resp, tr') \<Longrightarrow>
     answers e r m u a tr resp \<and>
     tr' = tr @ [Sent \<lparr>Method = m, URL = u, BasicAuth = (Username r, Password r), Accept = a\<rparr>]"
  by (auto simp: answers_def do_request_def Let_def split: option.splits)

lemmas run_defs = ListImages_def ListTagsByImage_def ImageManifest_def SearchAssets_def
  DeleteImageByTagByAssetId_def DeleteImageByTag_def do_request_def NewRegistry_def index_def
  zero_repositories_def zero_imageTags_def zero_ImageManifest_def zero_SearchAssets_def
  zero_layerInfo_def credentialsFile_def

lemma SearchAssets_ok:
  "SearchAssets e r img tag tr = ((assets, None), tr1) \<Longrightarrow>
     tr1 = tr @ [Sent \<lparr>Method = ''GET'', URL = searchURL r img tag,
                       BasicAuth = (Username r, Password r), Accept = acceptHeaderJson\<rparr>]"
  by (auto simp: SearchAssets_def do_request_def Let_def split: option.splits sum.splits if_splits)

section \<open>Status codes other than 200\<close>

text \<open>
  Claim C4.  When the registry answers with a status code other than 200, \<^verbatim>\<open>ListImages\<close>,
  \<^verbatim>\<open>ListTagsByImage\<close> and \<^verbatim>\<open>ImageManifest\<close> each return the error
  \<^verbatim>\<open>"HTTP Code: <status>"\<close> carrying that status code, together with no data: the nil
  slice, or the zero-valued manifest.
\<close>

theorem non_200_is_HTTPCode_error:
  assumes "StatusCode resp \<noteq> 200"
  shows "(answers e r ''GET'' (catalogURL r) acceptHeader tr resp \<longrightarrow>
            fst (ListImages e r tr) = ([], Some (HTTPCode (StatusCode resp)))) \<and>
         (answers e r ''GET'' (tagsURL r img) acceptHeader tr resp \<longrightarrow>
            fst (ListTagsByImage e r img tr) = ([], Some (HTTPCode (StatusCode resp)))) \<and>
         (answers e r ''GET'' (manifestURL r img tag) acceptHeader tr resp \<longrightarrow>
            fst (ImageManifest e r img tag tr)
              = (zero_ImageManifest, Some (HTTPCode (StatusCode resp))))"
  using assms
  by (simp add: ListImages_def ListTagsByImage_def ImageManifest_def do_request_answers)

theorem non_200_is_HTTPCode_error_witness:
  "StatusCode (reply 404 [] []) \<noteq> 200 \<and>
   answers demo_env gone_registry ''GET''
     (catalogURL gone_registry) acceptHeader [] (reply 404 [] []) \<and>
   fst (ListImages demo_env gone_registry []) = ([], Some (HTTPCode 404)) \<and>
   answers demo_env gone_registry ''GET''
     (tagsURL gone_registry ''app'') acceptHeader [] (reply 404 [] []) \<and>
   fst (ListTagsByImage demo_env gone_registry ''app'' [])
     = ([], Some (HTTPCode 404)) \<and>
   answers demo_env gone_registry ''GET''
     (manifestURL gone_registry ''app'' ''v1'') acceptHeader []
     (reply 404 [] []) \<and>
   fst (ImageManifest demo_env gone_registry ''app'' ''v1'' [])
     = (zero_ImageManifest, Some (HTTPCode 404))"
proof -
  have s: "StatusCode (reply 404 [] []) \<noteq> 200"
    by (simp add: reply_def)
  have a1: "answers demo_env gone_registry ''GET''
     (catalogURL gone_registry) acceptHeader [] (reply 404 [] [])"
    by (simp add: answers_def gone_registry_def demo_defs)
  have a2: "answers demo_env gone_registry ''GET''
     (tagsURL gone_registry ''app'') acceptHeader [] (reply 404 [] [])"
    by (simp add: answers_def gone_registry_def demo_defs)
  have a3: "answers demo_env gone_registry ''GET''
     (manifestURL gone_registry ''app'' ''v1'') acceptHeader []
     (reply 404 [] [])"
    by (simp add: answers_def gone_registry_def demo_defs)
  have c: "StatusCode (reply 404 [] []) = 404"
    by (simp add: reply_def)
  show ?thesis
    using non_200_is_HTTPCode_error [OF s, of demo_env gone_registry "[]" "''app''" "''v1''"]
      a1 a2 a3 s unfolding c by simp
qed

section \<open>The date of a tag\<close>

text \<open>
  Claim C7.  On a response with status 200, \<^verbatim>\<open>GetImageTagDate\<close> hands the value of the
  \<^verbatim>\<open>last-modified\<close> header to \<^verbatim>\<open>time.Parse\<close> with the layout \<^verbatim>\<open>time.RFC1123\<close> and
  returns the timestamp parsed, without error; when the parser rejects the value it returns
  the parser's error.  A missing header reads as the empty string, so it fails with the
  error the parser gives for the empty string.
\<close>

theorem GetImageTagDate_parses_last_modified:
  assumes "answers e r ''GET'' (manifestURL r img tag) acceptHeader tr resp"
    and "StatusCode resp = 200"
  shows "(\<forall>t. time_Parse e RFC1123 (Header_Get resp ''last-modified'') = Inr t \<longrightarrow>
            fst (GetImageTagDate e r img tag tr) = (t, None)) \<and>
         (\<forall>err. time_Parse e RFC1123 (Header_Get resp ''last-modified'') = Inl err \<longrightarrow>
            fst (GetImageTagDate e r img tag tr) = (time_Now e, Some err)) \<and>
         (\<forall>err. Header_Get resp ''last-modified'' = [] \<and> time_Parse e RFC1123 [] = Inl err \<longrightarrow>
            fst (GetImageTagDate e r img tag tr) = (time_Now e, Some err))"
  using assms by (simp add: GetImageTagDate_def do_request_answers)

theorem GetImageTagDate_parses_last_modified_witness:
  "answers demo_env demo_registry ''GET'' (manifestURL demo_registry ''api'' ''1'') acceptHeader []
     (reply 200 ''Tue, 15 Aug 2023 10:00:00 GMT'' ''manifest:1'') \<and>
   StatusCode (reply 200 ''Tue, 15 Aug 2023 10:00:00 GMT'' ''manifest:1'') = 200 \<and>
   Header_Get (reply 200 ''Tue, 15 Aug 2023 10:00:00 GMT'' ''manifest:1'') ''last-modified''
     = ''Tue, 15 Aug 2023 10:00:00 GMT'' \<and>
   time_Parse demo_env RFC1123 ''Tue, 15 Aug 2023 10:00:00 GMT'' = Inr 1692093600 \<and>
   fst (GetImageTagDate demo_env demo_registry ''api'' ''1'' []) = (1692093600, None) \<and>
   answers demo_env demo_registry ''GET'' (manifestURL demo_registry ''api'' ''2'') acceptHeader []
     (reply 200 [] ''manifest:2'') \<and>
   Header_Get (reply 200 [] ''manifest:2'') ''last-modified'' = [] \<and>
   time_Parse demo_env RFC1123 [] = Inl (LibError ''parsing time'') \<and>
   fst (GetImageTagDate demo_env demo_registry ''api'' ''2'' [])
     = (time_Now demo_env, Some (LibError ''parsing time''))"
proof -
  have a: "answers demo_env demo_registry ''GET'' (manifestURL demo_registry ''api'' ''1'')
      acceptHeader [] (reply 200 ''Tue, 15 Aug 2023 10:00:00 GMT'' ''manifest:1'')"
    by (simp add: answers_def demo_defs)
  have s: "StatusCode (reply 200 ''Tue, 15 Aug 2023 10:00:00 GMT'' ''manifest:1'') = 200"
    by (simp add: reply_def)
  have h: "Header_Get (reply 200 ''Tue, 15 Aug 2023 10:00:00 GMT'' ''manifest:1'') ''last-modified''
      = ''Tue, 15 Aug 2023 10:00:00 GMT''"
    by (simp add: reply_def)
  have p: "time_Parse demo_env RFC1123 ''Tue, 15 Aug 2023 10:00:00 GMT'' = Inr 1692093600"
    by (simp add: demo_env_def demo_Parse_def)
  have b: "answers demo_env demo_registry ''GET'' (manifestURL demo_registry ''api'' ''2'')
      acceptHeader [] (reply 200 [] ''manifest:2'')"
    by (simp add: answers_def demo_defs)
  have s2: "StatusCode (reply 200 [] ''manifest:2'') = 200"
    by (simp add: reply_def)
  have h2: "Header_Get (reply 200 [] ''manifest:2'') ''last-modified'' = []"
    by (simp add: reply_def)
  have p2: "time_Parse demo_env RFC1123 [] = Inl (LibError ''parsing time'')"
    by (simp add: demo_env_def demo_Parse_def)
  from GetImageTagDate_parses_last_modified [OF a s] h p
  have r1: "fst (GetImageTagDate demo_env demo_registry ''api'' ''1'' []) = (1692093600, None)"
    by simp
  from GetImageTagDate_parses_last_modified [OF b s2] h2 p2
  have r2: "fst (GetImageTagDate demo_env demo_registry ''api'' ''2'' [])
      = (time_Now demo_env, Some (LibError ''parsing time''))"
    by simp
  show ?thesis
    using a s h p b h2 p2 r1 r2 by simp
qed

text \<open>
  Claim C10.  On every failing path of \<^verbatim>\<open>GetImageTagDate\<close> (the request cannot be
  built, the transport fails, the status is not 200, the date does not parse) the timestamp
  returned beside the error is the reading of \<^verbatim>\<open>time.Now()\<close>; so whenever an error is
  returned the timestamp is that reading.
\<close>

theorem GetImageTagDate_failure_carries_Now:
  "(\<forall>err. snd (fst (GetImageTagDate e r img tag tr)) = Some err \<longrightarrow>
      fst (fst (GetImageTagDate e r img tag tr)) = time_Now e) \<and>
   (\<forall>err. http_NewRequest e ''GET'' (manifestURL r img tag) = Some err \<longrightarrow>
      fst (GetImageTagDate e r img tag tr) = (time_Now e, Some err)) \<and>
   (\<forall>err. http_NewRequest e ''GET'' (manifestURL r img tag) = None \<and>
      client_Do e (sent tr)
        \<lparr>Method = ''GET'', URL = manifestURL r img tag, BasicAuth = (Username r, Password r),
         Accept = acceptHeader\<rparr> = Inl err \<longrightarrow>
      fst (GetImageTagDate e r img tag tr) = (time_Now e, Some err)) \<and>
   (\<forall>resp. answers e r ''GET'' (manifestURL r img tag) acceptHeader tr resp \<and>
      StatusCode resp \<noteq> 200 \<longrightarrow>
      fst (GetImageTagDate e r img tag tr) = (time_Now e, Some (HTTPCode (StatusCode resp)))) \<and>
   (\<forall>resp err. answers e r ''GET'' (manifestURL r img tag) acceptHeader tr resp \<and>
      StatusCode resp = 200 \<and>
      time_Parse e RFC1123 (Header_Get resp ''last-modified'') = Inl err \<longrightarrow>
      fst (GetImageTagDate e r img tag tr) = (time_Now e, Some err))"
  by (auto simp: GetImageTagDate_def do_request_def answers_def Let_def
      split: option.splits sum.splits)

theorem GetImageTagDate_failure_carries_Now_witness:
  "answers demo_env demo_registry ''GET'' (manifestURL demo_registry ''api'' ''3'') acceptHeader []
     (reply 404 [] []) \<and>
   StatusCode (reply 404 [] []) \<noteq> 200 \<and>
   fst (GetImageTagDate demo_env demo_registry ''api'' ''3'' []) = (1700000000, Some (HTTPCode 404)) \<and>
   answers demo_env demo_registry ''GET'' (manifestURL demo_registry ''api'' ''2'') acceptHeader []
     (reply 200 [] ''manifest:2'') \<and>
   time_Parse demo_env RFC1123 (Header_Get (reply 200 [] ''manifest:2'') ''last-modified'')
     = Inl (LibError ''parsing time'') \<and>
   fst (GetImageTagDate demo_env demo_registry ''api'' ''2'' [])
     = (1700000000, Some (LibError ''parsing time''))"
proof -
  have a: "answers demo_env demo_registry ''GET'' (manifestURL demo_registry ''api'' ''3'')
      acceptHeader [] (reply 404 [] [])"
    by (simp add: answers_def demo_defs)
  have s: "StatusCode (reply 404 [] []) \<noteq> 200" and c: "StatusCode (reply 404 [] []) = 404"
    by (simp_all add: reply_def)
  have n: "time_Now demo_env = 1700000000"
    by (simp add: demo_env_def)
  have b: "answers demo_env demo_registry ''GET'' (manifestURL demo_registry ''api'' ''2'')
      acceptHeader [] (reply 200 [] ''manifest:2'')"
    by (simp add: answers_def demo_defs)
  have s2: "StatusCode (reply 200 [] ''manifest:2'') = 200"
    by (simp add: reply_def)
  have p: "time_Parse demo_env RFC1123 (Header_Get (reply 200 [] ''manifest:2'') ''last-modified'')
      = Inl (LibError ''parsing time'')"
    by (simp add: demo_env_def demo_Parse_def reply_def)
  from GetImageTagDate_failure_carries_Now [of demo_env demo_registry "''api''" "''3''" "[]"] a s
  have r1: "fst (GetImageTagDate demo_env demo_registry ''api'' ''3'' [])
      = (time_Now demo_env, Some (HTTPCode (StatusCode (reply 404 [] []))))"
    by blast
  from GetImageTagDate_failure_carries_Now [of demo_env demo_registry "''api''" "''2''" "[]"] b s2 p
  have r2: "fst (GetImageTagDate demo_env demo_registry ''api'' ''2'' [])
      = (time_Now demo_env, Some (LibError ''parsing time''))"
    by blast
  show ?thesis
    using a s b p r1 r2 unfolding c n by simp
qed

section \<open>Bodies that do not decode\<close>

text \<open>
  Claim C2, as amended.  On a response with status 200, \<^verbatim>\<open>ListImages\<close>,
  \<^verbatim>\<open>ListTagsByImage\<close> and \<^verbatim>\<open>ImageManifest\<close> never return an error: the error of
  \<^verbatim>\<open>Decode\<close> is dropped, and the result is whatever the decoder left in the destination,
  which started as the zero value.  So the result is the zero value (nil slice, zero-valued
  manifest) whenever the decoder left the destination untouched.
\<close>

theorem decode_error_is_dropped:
  assumes "StatusCode resp = 200"
  shows "(answers e r ''GET'' (catalogURL r) acceptHeader tr resp \<longrightarrow>
            fst (ListImages e r tr)
              = (Images (fst (decode_repositories e (Body resp) zero_repositories)), None) \<and>
            (fst (decode_repositories e (Body resp) zero_repositories) = zero_repositories \<longrightarrow>
               fst (ListImages e r tr) = ([], None))) \<and>
         (answers e r ''GET'' (tagsURL r img) acceptHeader tr resp \<longrightarrow>
            fst (ListTagsByImage e r img tr)
              = (Tags (fst (decode_imageTags e (Body resp) zero_imageTags)), None) \<and>
            (fst (decode_imageTags e (Body resp) zero_imageTags) = zero_imageTags \<longrightarrow>
               fst (ListTagsByImage e r img tr) = ([], None))) \<and>
         (answers e r ''GET'' (manifestURL r img tag) acceptHeader tr resp \<longrightarrow>
            fst (ImageManifest e r img tag tr)
              = (fst (decode_ImageManifest e (Body resp) zero_ImageManifest), None) \<and>
            (fst (decode_ImageManifest e (Body resp) zero_ImageManifest) = zero_ImageManifest \<longrightarrow>
               fst (ImageManifest e r img tag tr) = (zero_ImageManifest, None)))"
proof -
  have li: "fst (ListImages e r tr)
              = (Images (fst (decode_repositories e (Body resp) zero_repositories)), None)"
    if "answers e r ''GET'' (catalogURL r) acceptHeader tr resp"
    using that assms by (simp add: ListImages_def do_request_answers)
  have lt: "fst (ListTagsByImage e r img tr)
              = (Tags (fst (decode_imageTags e (Body resp) zero_imageTags)), None)"
    if "answers e r ''GET'' (tagsURL r img) acceptHeader tr resp"
    using that assms by (simp add: ListTagsByImage_def do_request_answers)
  have im: "fst (ImageManifest e r img tag tr)
              = (fst (decode_ImageManifest e (Body resp) zero_ImageManifest), None)"
    if "answers e r ''GET'' (manifestURL r img tag) acceptHeader tr resp"
    using that assms by (simp add: ImageManifest_def do_request_answers)
  have z1: "Images zero_repositories = []" by (simp add: zero_repositories_def)
  have z2: "Tags zero_imageTags = []" by (simp add: zero_imageTags_def)
  show ?thesis
    using li lt im z1 z2 by simp
qed

theorem decode_error_is_dropped_witness:
  "StatusCode (reply 200 [] ''<html>'') = 200 \<and>
   answers demo_env demo_registry ''GET'' (catalogURL demo_registry) acceptHeader []
     (reply 200 [] ''<html>'') \<and>
   decode_repositories demo_env (Body (reply 200 [] ''<html>'')) zero_repositories
     = (zero_repositories, Some (LibError ''invalid character'')) \<and>
   fst (ListImages demo_env demo_registry []) = ([], None) \<and>
   answers demo_env demo_registry ''GET'' (tagsURL demo_registry ''old'') acceptHeader []
     (reply 200 [] ''<html>'') \<and>
   decode_imageTags demo_env (Body (reply 200 [] ''<html>'')) zero_imageTags
     = (zero_imageTags, Some (LibError ''invalid character'')) \<and>
   fst (ListTagsByImage demo_env demo_registry ''old'' []) = ([], None) \<and>
   answers demo_env demo_registry ''GET'' (manifestURL demo_registry ''old'' ''1'') acceptHeader []
     (reply 200 [] ''<html>'') \<and>
   decode_ImageManifest demo_env (Body (reply 200 [] ''<html>'')) zero_ImageManifest
     = (zero_ImageManifest, Some (LibError ''invalid character'')) \<and>
   fst (ImageManifest demo_env demo_registry ''old'' ''1'' []) = (zero_ImageManifest, None)"
proof -
  have s: "StatusCode (reply 200 [] ''<html>'') = 200"
    by (simp add: reply_def)
  have a1: "answers demo_env demo_registry ''GET'' (catalogURL demo_registry) acceptHeader []
     (reply 200 [] ''<html>'')"
    by (simp add: answers_def demo_defs)
  have a2: "answers demo_env demo_registry ''GET'' (tagsURL demo_registry ''old'') acceptHeader []
     (reply 200 [] ''<html>'')"
    by (simp add: answers_def demo_defs)
  have a3: "answers demo_env demo_registry ''GET'' (manifestURL demo_registry ''old'' ''1'')
     acceptHeader [] (reply 200 [] ''<html>'')"
    by (simp add: answers_def demo_defs)
  have d1: "decode_repositories demo_env (Body (reply 200 [] ''<html>'')) zero_repositories
     = (zero_repositories, Some (LibError ''invalid character''))"
    by (simp add: demo_env_def demo_decode_repositories_def reply_def)
  have d2: "decode_imageTags demo_env (Body (reply 200 [] ''<html>'')) zero_imageTags
     = (zero_imageTags, Some (LibError ''invalid character''))"
    by (simp add: demo_env_def demo_decode_imageTags_def reply_def)
  have d3: "decode_ImageManifest demo_env (Body (reply 200 [] ''<html>'')) zero_ImageManifest
     = (zero_ImageManifest, Some (LibError ''invalid character''))"
    by (simp add: demo_env_def demo_decode_ImageManifest_def reply_def)
  note t = decode_error_is_dropped [OF s, of demo_env demo_registry "[]" "''old''" "''1''"]
  have r1: "fst (ListImages demo_env demo_registry []) = ([], None)"
    using t [THEN conjunct1, THEN mp, OF a1, THEN conjunct2] d1 by simp
  have r2: "fst (ListTagsByImage demo_env demo_registry ''old'' []) = ([], None)"
    using t [THEN conjunct2, THEN conjunct1, THEN mp, OF a2, THEN conjunct2] d2 by simp
  have r3: "fst (ImageManifest demo_env demo_registry ''old'' ''1'' []) = (zero_ImageManifest, None)"
    using t [THEN conjunct2, THEN conjunct2, THEN mp, OF a3, THEN conjunct2] d3 by simp
  show ?thesis
    by (intro conjI s a1 d1 r1 a2 d2 r2 a3 d3 r3)
qed

text \<open>
  The claim as stated fails where the decoder reports an error after it has filled part of
  the destination: the tags come back, not the nil slice.
\<close>

theorem decode_failure_zero_result_counterexample:
  "answers demo_env demo_registry ''GET'' (tagsURL demo_registry ''web'') acceptHeader []
     (reply 200 [] ''{name:5,tags:[v1]}'') \<and>
   StatusCode (reply 200 [] ''{name:5,tags:[v1]}'') = 200 \<and>
   snd (decode_imageTags demo_env (Body (reply 200 [] ''{name:5,tags:[v1]}'')) zero_imageTags)
     = Some (LibError ''cannot unmarshal number into string'') \<and>
   fst (ListTagsByImage demo_env demo_registry ''web'' []) = ([''v1''], None) \<and>
   fst (ListTagsByImage demo_env demo_registry ''web'' []) \<noteq> ([], None)"
  by (simp add: answers_def ListTagsByImage_def do_request_def zero_imageTags_def demo_defs)

section \<open>Deleting one tag\<close>

text \<open>
  Claim C3, as amended.  After a search that succeeded: with zero items,
  \<^verbatim>\<open>DeleteImageByTag\<close> prints ``No assets found'' and returns nil, and sends no DELETE;
  with at least one item whose first item has at least one asset, it calls
  \<^verbatim>\<open>DeleteImageByTagByAssetId\<close> with the id of the first asset of the first item (one
  DELETE for that asset's URL, when the request can be built), then prints the success line
  and returns nil.
\<close>

theorem DeleteImageByTag_uses_first_asset:
  assumes "SearchAssets e r img tag tr = ((assets, None), tr1)"
  shows "(Items assets = [] \<longrightarrow>
            DeleteImageByTag e r img tag tr = (Returned None, tr1 @ [Stdout (NoAssetsFound img tag)]) \<and>
            deletes (snd (DeleteImageByTag e r img tag tr)) = deletes tr) \<and>
         (\<forall>it its a as. Items assets = it # its \<and> Assets it = a # as \<longrightarrow>
            DeleteImageByTag e r img tag tr
              = (Returned None,
                 snd (DeleteImageByTagByAssetId e r (ID a) img tag tr1)
                   @ [Stdout (SuccessfulDeleted img tag)]) \<and>
            (http_NewRequest e ''DELETE'' (assetURL r (ID a)) = None \<longrightarrow>
               deletes (snd (DeleteImageByTag e r img tag tr))
                 = deletes tr @ [\<lparr>Method = ''DELETE'', URL = assetURL r (ID a),
                                  BasicAuth = (Username r, Password r),
                                  Accept = acceptHeaderJson\<rparr>]))"
proof -
  note tr1 = SearchAssets_ok [OF assms]
  have none: "Items assets = [] \<Longrightarrow>
      DeleteImageByTag e r img tag tr = (Returned None, tr1 @ [Stdout (NoAssetsFound img tag)])"
    using assms by (simp add: DeleteImageByTag_def)
  have none_del: "Items assets = [] \<Longrightarrow> deletes (snd (DeleteImageByTag e r img tag tr)) = deletes tr"
    using none tr1 by (simp add: deletes_def sent_append)
  have some: "DeleteImageByTag e r img tag tr
              = (Returned None,
                 snd (DeleteImageByTagByAssetId e r (ID a) img tag tr1)
                   @ [Stdout (SuccessfulDeleted img tag)])"
    if "Items assets = it # its" "Assets it = a # as" for it its a as
    using assms that by (simp add: DeleteImageByTag_def index_def Let_def)
  have some_del: "deletes (snd (DeleteImageByTag e r img tag tr))
                 = deletes tr @ [\<lparr>Method = ''DELETE'', URL = assetURL r (ID a),
                                  BasicAuth = (Username r, Password r),
                                  Accept = acceptHeaderJson\<rparr>]"
    if "Items assets = it # its" "Assets it = a # as"
      "http_NewRequest e ''DELETE'' (assetURL r (ID a)) = None" for it its a as
    using some [OF that(1,2)] that(3) tr1
    by (simp add: DeleteImageByTagByAssetId_def do_request_def Let_def deletes_def sent_append
        split: sum.splits)
  show ?thesis
    using none none_del some some_del by blast
qed

theorem DeleteImageByTag_uses_first_asset_witness:
  "SearchAssets demo_env demo_registry ''app'' ''v2'' []
     = ((zero_SearchAssets, None),
        [Sent \<lparr>Method = ''GET'', URL = searchURL demo_registry ''app'' ''v2'',
               BasicAuth = (''admin'', ''secret''), Accept = acceptHeaderJson\<rparr>]) \<and>
   Items zero_SearchAssets = [] \<and>
   DeleteImageByTag demo_env demo_registry ''app'' ''v2'' []
     = (Returned None,
        [Sent \<lparr>Method = ''GET'', URL = searchURL demo_registry ''app'' ''v2'',
               BasicAuth = (''admin'', ''secret''), Accept = acceptHeaderJson\<rparr>,
         Stdout (NoAssetsFound ''app'' ''v2'')]) \<and>
   deletes (snd (DeleteImageByTag demo_env demo_registry ''app'' ''v2'' [])) = [] \<and>
   SearchAssets demo_env demo_registry ''app'' ''v10'' []
     = ((\<lparr>Items = [demo_item ''v10'' [demo_asset ''a10'', demo_asset ''b10'']],
          ContinuationToken = None\<rparr>, None),
        [Sent \<lparr>Method = ''GET'', URL = searchURL demo_registry ''app'' ''v10'',
               BasicAuth = (''admin'', ''secret''), Accept = acceptHeaderJson\<rparr>]) \<and>
   Assets (demo_item ''v10'' [demo_asset ''a10'', demo_asset ''b10''])
     = demo_asset ''a10'' # [demo_asset ''b10''] \<and>
   http_NewRequest demo_env ''DELETE'' (assetURL demo_registry (ID (demo_asset ''a10''))) = None \<and>
   deletes (snd (DeleteImageByTag demo_env demo_registry ''app'' ''v10'' []))
     = [\<lparr>Method = ''DELETE'', URL = ''http://nexus/service/rest/v1/assets/a10'',
         BasicAuth = (''admin'', ''secret''), Accept = acceptHeaderJson\<rparr>]"
proof -
  have s2: "SearchAssets demo_env demo_registry ''app'' ''v2'' []
     = ((zero_SearchAssets, None),
        [Sent \<lparr>Method = ''GET'', URL = searchURL demo_registry ''app'' ''v2'',
               BasicAuth = (''admin'', ''secret''), Accept = acceptHeaderJson\<rparr>])"
    by (simp add: SearchAssets_def do_request_def demo_defs)
  have z: "Items zero_SearchAssets = []"
    by (simp add: zero_SearchAssets_def)
  have s10: "SearchAssets demo_env demo_registry ''app'' ''v10'' []
     = ((\<lparr>Items = [demo_item ''v10'' [demo_asset ''a10'', demo_asset ''b10'']],
          ContinuationToken = None\<rparr>, None),
        [Sent \<lparr>Method = ''GET'', URL = searchURL demo_registry ''app'' ''v10'',
               BasicAuth = (''admin'', ''secret''), Accept = acceptHeaderJson\<rparr>])"
    by (simp add: SearchAssets_def do_request_def zero_SearchAssets_def demo_defs)
  have i10: "Items \<lparr>Items = [demo_item ''v10'' [demo_asset ''a10'', demo_asset ''b10'']],
          ContinuationToken = None\<rparr> = demo_item ''v10'' [demo_asset ''a10'', demo_asset ''b10''] # []"
    by simp
  have a10: "Assets (demo_item ''v10'' [demo_asset ''a10'', demo_asset ''b10''])
     = demo_asset ''a10'' # [demo_asset ''b10'']"
    by (simp add: demo_item_def)
  have n: "http_NewRequest demo_env ''DELETE'' (assetURL demo_registry (ID (demo_asset ''a10''))) = None"
    by (simp add: demo_env_def)
  have d0: "deletes [] = []"
    by (simp add: deletes_def)
  have u: "assetURL demo_registry (ID (demo_asset ''a10'')) = ''http://nexus/service/rest/v1/assets/a10''"
    "Username demo_registry = ''admin''" "Password demo_registry = ''secret''"
    by (simp_all add: assetURL_def demo_registry_def demo_asset_def)
  note t2 = DeleteImageByTag_uses_first_asset [OF s2, THEN conjunct1, THEN mp, OF z]
  have r2a: "DeleteImageByTag demo_env demo_registry ''app'' ''v2'' []
     = (Returned None,
        [Sent \<lparr>Method = ''GET'', URL = searchURL demo_registry ''app'' ''v2'',
               BasicAuth = (''admin'', ''secret''), Accept = acceptHeaderJson\<rparr>,
         Stdout (NoAssetsFound ''app'' ''v2'')])"
    using t2 [THEN conjunct1] by simp
  have r2b: "deletes (snd (DeleteImageByTag demo_env demo_registry ''app'' ''v2'' [])) = []"
    using t2 [THEN conjunct2] by (simp only: d0)
  note t10 = DeleteImageByTag_uses_first_asset [OF s10, THEN conjunct2, THEN spec, THEN spec,
      THEN spec, THEN spec, THEN mp, OF conjI [OF i10 a10], THEN conjunct2, THEN mp, OF n]
  have r10: "deletes (snd (DeleteImageByTag demo_env demo_registry ''app'' ''v10'' []))
     = [\<lparr>Method = ''DELETE'', URL = ''http://nexus/service/rest/v1/assets/a10'',
         BasicAuth = (''admin'', ''secret''), Accept = acceptHeaderJson\<rparr>]"
    using t10 by (simp only: d0 u append_Nil)
  show ?thesis
    by (intro conjI s2 z r2a r2b s10 a10 n r10)
qed

text \<open>
  The claim as stated fails where the first item has no assets: one item exists, yet no
  DELETE is sent and the call does not return.
\<close>

theorem DeleteImageByTag_first_asset_counterexample:
  "fst (SearchAssets demo_env demo_registry ''app'' ''v3'' [])
     = (\<lparr>Items = [demo_item ''v3'' []], ContinuationToken = None\<rparr>, None) \<and>
   length (Items (fst (fst (SearchAssets demo_env demo_registry ''app'' ''v3'' [])))) = 1 \<and>
   fst (DeleteImageByTag demo_env demo_registry ''app'' ''v3'' []) = Panicked (IndexOutOfRange 0 0) \<and>
   deletes (snd (DeleteImageByTag demo_env demo_registry ''app'' ''v3'' [])) = []"
  by (simp add: run_defs deletes_def demo_defs)

text \<open>
  Claim C9.  When the search returns at least one item and the first item has no assets,
  \<^verbatim>\<open>DeleteImageByTag\<close> panics at \<^verbatim>\<open>assets.Items[0].Assets[0]\<close> with an index out of
  range (index 0, length 0): the guard before it looks at the length of \<open>Items\<close> only.
\<close>

theorem DeleteImageByTag_panics_without_assets:
  assumes "SearchAssets e r img tag tr = ((assets, None), tr1)"
    and "Items assets = it # its"
    and "Assets it = []"
  shows "DeleteImageByTag e r img tag tr = (Panicked (IndexOutOfRange 0 0), tr1)"
  using assms by (simp add: DeleteImageByTag_def index_def)

theorem DeleteImageByTag_panics_without_assets_witness:
  "SearchAssets demo_env demo_registry ''app'' ''v3'' []
     = ((\<lparr>Items = [demo_item ''v3'' []], ContinuationToken = None\<rparr>, None),
        [Sent \<lparr>Method = ''GET'', URL = searchURL demo_registry ''app'' ''v3'',
               BasicAuth = (''admin'', ''secret''), Accept = acceptHeaderJson\<rparr>]) \<and>
   Assets (demo_item ''v3'' []) = [] \<and>
   DeleteImageByTag demo_env demo_registry ''app'' ''v3'' []
     = (Panicked (IndexOutOfRange 0 0),
        [Sent \<lparr>Method = ''GET'', URL = searchURL demo_registry ''app'' ''v3'',
               BasicAuth = (''admin'', ''secret''), Accept = acceptHeaderJson\<rparr>])"
proof -
  have s: "SearchAssets demo_env demo_registry ''app'' ''v3'' []
     = ((\<lparr>Items = [demo_item ''v3'' []], ContinuationToken = None\<rparr>, None),
        [Sent \<lparr>Method = ''GET'', URL = searchURL demo_registry ''app'' ''v3'',
               BasicAuth = (''admin'', ''secret''), Accept = acceptHeaderJson\<rparr>])"
    by (simp add: SearchAssets_def do_request_def zero_SearchAssets_def demo_defs)
  have i: "Items \<lparr>Items = [demo_item ''v3'' []], ContinuationToken = None\<rparr> = demo_item ''v3'' [] # []"
    by simp
  have a: "Assets (demo_item ''v3'' []) = []"
    by (simp add: demo_item_def)
  show ?thesis
    by (intro conjI s a DeleteImageByTag_panics_without_assets [OF s i a])
qed

section \<open>Retention deletion and failures\<close>

text \<open>
  Claim C1.  The claim asks that a failure on one tag ends the batch with that error.  The
  run below keeps 2 of the tags \<^verbatim>\<open>v10, v2, v1, latest\<close> of \<^verbatim>\<open>app\<close>: the search for
  \<^verbatim>\<open>latest\<close> fails with status 500, yet the loop goes on to \<^verbatim>\<open>v1\<close>; there the DELETE
  fails with status 500, yet the success line is printed; and \<^verbatim>\<open>deleteImage\<close> returns
  nil.  Both calls, made on their own, do return the error.
\<close>

theorem retention_ignores_failures:
  "deleteImage demo_env ''app'' [] 2 []
     = (Returned None,
        [Sent \<lparr>Method = ''GET'', URL = ''http://nexus/repository/docker/v2/app/tags/list'',
               BasicAuth = (''admin'', ''secret''), Accept = acceptHeader\<rparr>,
         Stdout (WillBeDeleted ''app'' ''latest''),
         Sent \<lparr>Method = ''GET'',
               URL = ''http://nexus/service/rest/v1/search?repository=docker&name=app&version=latest'',
               BasicAuth = (''admin'', ''secret''), Accept = acceptHeaderJson\<rparr>,
         Stdout (WillBeDeleted ''app'' ''v1''),
         Sent \<lparr>Method = ''GET'',
               URL = ''http://nexus/service/rest/v1/search?repository=docker&name=app&version=v1'',
               BasicAuth = (''admin'', ''secret''), Accept = acceptHeaderJson\<rparr>,
         Sent \<lparr>Method = ''DELETE'', URL = ''http://nexus/service/rest/v1/assets/a1'',
               BasicAuth = (''admin'', ''secret''), Accept = acceptHeaderJson\<rparr>,
         Stdout (SuccessfulDeleted ''app'' ''v1'')]) \<and>
   fst (DeleteImageByTag demo_env demo_registry ''app'' ''latest'' [])
     = Returned (Some (HTTPCode 500)) \<and>
   fst (DeleteImageByTagByAssetId demo_env demo_registry ''a1'' ''app'' ''v1'' [])
     = Some (HTTPCodeDelete 500 ''a1'' ''app'' ''v1'')"
  by (simp add: deleteImage_def slice_to_def Compare_Sort_def compareStringNumber_def
      extractNumberFromString_def parseDecimal_def firstDigitRun_def isDigit_def digitValue_def
      run_defs demo_defs)

section \<open>The number in a tag\<close>

lemma decimal_value_Nil: "decimal_value [] = 0"
  by (simp add: decimal_value_def)

lemma decimal_value_snoc: "decimal_value (ds @ [c]) = 10 * decimal_value ds + digitValue c"
proof -
  have "(\<Sum>i < length ds. digitValue ((ds @ [c]) ! i) * 10 ^ (length ds - i))
      = (\<Sum>i < length ds. 10 * (digitValue (ds ! i) * 10 ^ (length ds - 1 - i)))"
  proof (rule sum.cong)
    fix i assume "i \<in> {..<length ds}"
    then have i: "i < length ds" by simp
    then have "length ds - i = Suc (length ds - 1 - i)" by arith
    then show "digitValue ((ds @ [c]) ! i) * 10 ^ (length ds - i)
        = 10 * (digitValue (ds ! i) * 10 ^ (length ds - 1 - i))"
      using i by (simp add: nth_append)
  qed simp
  then show ?thesis
    by (simp add: decimal_value_def sum_distrib_left)
qed

lemma parseDecimal_snoc: "parseDecimal (ds @ [c]) = 10 * parseDecimal ds + digitValue c"
  by (simp add: parseDecimal_def)

lemma parseDecimal_decimal_value: "parseDecimal ds = decimal_value ds"
  by (induction ds rule: rev_induct)
    (simp_all add: parseDecimal_snoc decimal_value_snoc decimal_value_Nil parseDecimal_def)

lemma firstDigitRun_none: "\<forall>c\<in>set s. \<not> isDigit c \<Longrightarrow> firstDigitRun s = []"
proof -
  assume "\<forall>c\<in>set s. \<not> isDigit c"
  then have h: "dropWhile (\<lambda>c. \<not> isDigit c) s = []"
    by (induction s) simp_all
  show ?thesis
    by (simp only: firstDigitRun_def h takeWhile.simps)
qed

lemma firstDigitRun_split:
  assumes "\<forall>c\<in>set pre. \<not> isDigit c" and "ds \<noteq> []" and "\<forall>c\<in>set ds. isDigit c"
    and "rest = [] \<or> \<not> isDigit (hd rest)"
  shows "firstDigitRun (pre @ ds @ rest) = ds"
proof -
  obtain d ds' where ds: "ds = d # ds'"
    using assms(2) by (cases ds) auto
  have "dropWhile (\<lambda>c. \<not> isDigit c) (pre @ ds @ rest) = ds @ rest"
    using assms(1,3) ds by (simp add: dropWhile_append)
  moreover have "takeWhile isDigit (ds @ rest) = ds"
    using assms(3,4) by (cases rest) (simp_all add: takeWhile_append)
  ultimately show ?thesis
    by (simp add: firstDigitRun_def)
qed

lemma digitValue_digits: "map digitValue ''0123456789'' = [0, 1, 2, 3, 4, 5, 6, 7, 8, 9]"
  by (simp add: digitValue_def)

text \<open>
  Claim C6.  \<^verbatim>\<open>extractNumberFromString\<close> is 0 on a string with no digit character; on
  a string whose first contiguous run of digits is \<open>ds\<close> (no digit before it, no digit
  right after it) it is the base-10 value of \<open>ds\<close>.  So it is 104 on
  \<^verbatim>\<open>release-104-build\<close>, 0 on \<^verbatim>\<open>latest\<close> and 2 on \<^verbatim>\<open>v2-rc1\<close>.
\<close>

theorem extractNumberFromString_first_digit_run:
  "((\<forall>c\<in>set s. \<not> isDigit c) \<longrightarrow> extractNumberFromString s = 0) \<and>
   ((\<forall>c\<in>set pre. \<not> isDigit c) \<and> ds \<noteq> [] \<and> (\<forall>c\<in>set ds. isDigit c) \<and>
      (rest = [] \<or> \<not> isDigit (hd rest)) \<longrightarrow>
      extractNumberFromString (pre @ ds @ rest) = decimal_value ds) \<and>
   extractNumberFromString ''release-104-build'' = 104 \<and>
   extractNumberFromString ''latest'' = 0 \<and>
   extractNumberFromString ''v2-rc1'' = 2"
proof -
  have none: "extractNumberFromString s = 0" if "\<forall>c\<in>set s. \<not> isDigit c"
    using firstDigitRun_none [OF that] by (simp add: extractNumberFromString_def parseDecimal_def)
  have run: "extractNumberFromString (pre @ ds @ rest) = decimal_value ds"
    if "\<forall>c\<in>set pre. \<not> isDigit c" "ds \<noteq> []" "\<forall>c\<in>set ds. isDigit c"
      "rest = [] \<or> \<not> isDigit (hd rest)"
    using firstDigitRun_split [OF that]
    by (simp add: extractNumberFromString_def parseDecimal_decimal_value)
  have ex: "extractNumberFromString ''release-104-build'' = 104"
    "extractNumberFromString ''latest'' = 0"
    "extractNumberFromString ''v2-rc1'' = 2"
    by (simp_all add: extractNumberFromString_def firstDigitRun_def parseDecimal_def
        isDigit_def digitValue_def)
  show ?thesis
    using none run ex by blast
qed

theorem extractNumberFromString_first_digit_run_witness:
  "extractNumberFromString (''release-'' @ ''104'' @ ''-build'') = decimal_value ''104'' \<and>
   decimal_value ''104'' = 104 \<and>
   extractNumberFromString ''latest'' = 0"
proof -
  have p: "\<forall>c\<in>set ''release-''. \<not> isDigit c" and l: "\<forall>c\<in>set ''latest''. \<not> isDigit c"
    and d: "\<forall>c\<in>set ''104''. isDigit c" and r: "''-build'' = [] \<or> \<not> isDigit (hd ''-build'')"
    by (simp_all add: isDigit_def)
  have n: "''104'' \<noteq> []" by simp
  note t = extractNumberFromString_first_digit_run [of "''latest''" "''release-''" "''104''" "''-build''"]
  have a: "extractNumberFromString (''release-'' @ ''104'' @ ''-build'') = decimal_value ''104''"
    using t p n d r by blast
  have b: "extractNumberFromString ''latest'' = 0"
    using t l by blast
  have c: "decimal_value ''104'' = 104"
    by (simp add: decimal_value_def digitValue_def lessThan_Suc numeral_3_eq_3)
  show ?thesis
    by (intro conjI a b c)
qed

section \<open>The total size of an image\<close>

lemma record_layers_Nil: "record_layers [] m = m"
  by (simp add: record_layers_def)

lemma record_layers_snoc:
  "record_layers (ls @ [l]) m = AList.update (Digest l) (Size l) (record_layers ls m)"
  by (simp add: record_layers_def)

lemma record_layers_append: "record_layers (ls @ ls') m = record_layers ls' (record_layers ls m)"
  by (simp add: record_layers_def)

lemma size_of_alt:
  "size_of ls d =
     (if filter (\<lambda>l. Digest l = d) ls = [] then 0
      else Size (last (filter (\<lambda>l. Digest l = d) ls)))"
  by (cases "filter (\<lambda>l. Digest l = d) ls")
    (simp_all only: size_of_def list.case if_False if_True list.distinct simp_thms)

lemma size_of_snoc:
  "size_of (ls @ [l]) d = (if Digest l = d then Size l else size_of ls d)"
  by (simp add: size_of_alt)

lemma digests_snoc: "digests (ls @ [l]) = insert (Digest l) (digests ls)"
  by (auto simp: digests_def)

lemma size_of_outside: "d \<notin> digests ls \<Longrightarrow> size_of ls d = 0"
proof -
  assume "d \<notin> digests ls"
  then have "filter (\<lambda>l. Digest l = d) ls = []"
    by (auto simp: digests_def filter_empty_conv)
  then show ?thesis
    by (simp only: size_of_def list.case)
qed

lemma map_of_record_layers:
  "map_of (record_layers ls []) d = (if d \<in> digests ls then Some (size_of ls d) else None)"
proof (induction ls rule: rev_induct)
  case Nil
  then show ?case by (simp add: record_layers_Nil digests_def)
next
  case (snoc l ls)
  then show ?case
    by (simp add: record_layers_snoc update_conv' size_of_snoc digests_snoc)
qed

lemma distinct_record_layers: "distinct (map fst (record_layers ls []))"
  by (induction ls rule: rev_induct) (simp_all add: record_layers_Nil record_layers_snoc distinct_update)

lemma keys_record_layers: "fst ` set (record_layers ls []) = digests ls"
proof -
  have "dom (map_of (record_layers ls [])) = digests ls"
    by (auto simp: map_of_record_layers split: if_splits)
  then show ?thesis
    by (simp add: dom_map_of_conv_image_fst)
qed

lemma totalSize_sum_list: "totalSize m = sum_list (map snd m)"
proof -
  have "foldl (\<lambda>total (digest, size). total + size) a m = a + sum_list (map snd m)" for a :: "64 word"
    by (induction m arbitrary: a) (auto simp: add.assoc)
  then show ?thesis
    by (simp add: totalSize_def)
qed

lemma totalSize_distinct:
  assumes "distinct (map fst m)"
  shows "totalSize m = (\<Sum>d \<in> fst ` set m. the (map_of m d))"
proof -
  have inj: "inj_on fst (set m)" and dist: "distinct m"
    using assms by (simp_all add: distinct_map)
  have "sum_list (map snd m) = sum snd (set m)"
    using dist by (simp add: sum_list_distinct_conv_sum_set)
  also have "\<dots> = sum (\<lambda>p. the (map_of m (fst p))) (set m)"
    using assms by (intro sum.cong) auto
  also have "\<dots> = (\<Sum>d \<in> fst ` set m. the (map_of m d))"
    using inj by (simp add: sum.reindex)
  finally show ?thesis
    by (simp add: totalSize_sum_list)
qed

lemma totalSize_record_layers:
  "totalSize (record_layers ls []) = (\<Sum>d \<in> digests ls. size_of ls d)"
proof -
  have "totalSize (record_layers ls [])
      = (\<Sum>d \<in> digests ls. the (map_of (record_layers ls []) d))"
    using totalSize_distinct [OF distinct_record_layers] by (simp add: keys_record_layers)
  also have "\<dots> = (\<Sum>d \<in> digests ls. size_of ls d)"
    by (intro sum.cong) (simp_all add: map_of_record_layers)
  finally show ?thesis .
qed

lemma size_loop_fetch_manifests:
  "size_loop e r imgName tags m tr =
     (case fetch_manifests e r imgName tags tr of
        (Inl err, tr') \<Rightarrow> (Inl (ExitError err 1), tr')
      | (Inr ms, tr') \<Rightarrow> (Inr (record_layers (all_layers ms) m), tr'))"
proof (induction tags arbitrary: m tr)
  case Nil
  then show ?case by (simp add: all_layers_def record_layers_Nil)
next
  case (Cons tag tags)
  then show ?case
    by (auto simp: all_layers_def record_layers_append split: prod.splits option.splits sum.splits)
qed

lemma size_of_uniform:
  assumes "d \<in> digests ls" and "\<forall>l\<in>set ls. Digest l = d \<longrightarrow> Size l = s"
  shows "size_of ls d = s"
proof -
  obtain l ls' where f: "filter (\<lambda>l. Digest l = d) ls = l # ls'"
    using assms(1) by (cases "filter (\<lambda>l. Digest l = d) ls") (auto simp: digests_def filter_empty_conv)
  have "last (l # ls') \<in> set (filter (\<lambda>l. Digest l = d) ls)"
    unfolding f by (rule last_in_set) simp
  then have "Size (last (l # ls')) = s"
    using assms(2) by simp
  then show ?thesis
    by (simp add: size_of_def f)
qed

text \<open>
  Claim C8.  When the tags are listed and every manifest is fetched, the total
  \<^verbatim>\<open>showTotalImageSize\<close> prints is a sum over the set of layer digests that occur in the
  manifests, one term per digest however many tags share it: the size of the last layer seen
  with that digest, which is the size of every layer with that digest when they agree.  The
  sum is Go's \<^verbatim>\<open>int64\<close> sum, printed as a signed number.
\<close>

theorem total_size_counts_each_digest_once:
  assumes "imgName \<noteq> []"
    and "NewRegistry e = (r, None)"
    and "ListTagsByImage e r imgName tr = ((tags, None), tr1)"
    and "fetch_manifests e r imgName tags tr1 = (Inr ms, tr2)"
  shows "showTotalImageSize e imgName tr
           = (None, tr2 @ [Stdout (TotalSize
                (sint (\<Sum>d \<in> digests (all_layers ms). size_of (all_layers ms) d)) imgName)]) \<and>
         (\<forall>d s. d \<in> digests (all_layers ms) \<and>
            (\<forall>l\<in>set (all_layers ms). Digest l = d \<longrightarrow> Size l = s) \<longrightarrow>
            size_of (all_layers ms) d = s)"
proof -
  have "size_loop e r imgName tags [] tr1 = (Inr (record_layers (all_layers ms) []), tr2)"
    using assms(4) by (simp add: size_loop_fetch_manifests)
  then have "showTotalImageSize e imgName tr
           = (None, tr2 @ [Stdout (TotalSize
                (sint (totalSize (record_layers (all_layers ms) []))) imgName)])"
    using assms(1,2,3) by (simp add: showTotalImageSize_def)
  then show ?thesis
    using size_of_uniform by (simp add: totalSize_record_layers)
qed

theorem total_size_counts_each_digest_once_witness:
  "showTotalImageSize demo_env ''api'' []
     = (None,
        [Sent \<lparr>Method = ''GET'', URL = tagsURL demo_registry ''api'',
               BasicAuth = (''admin'', ''secret''), Accept = acceptHeader\<rparr>,
         Sent \<lparr>Method = ''GET'', URL = manifestURL demo_registry ''api'' ''1'',
               BasicAuth = (''admin'', ''secret''), Accept = acceptHeader\<rparr>,
         Sent \<lparr>Method = ''GET'', URL = manifestURL demo_registry ''api'' ''2'',
               BasicAuth = (''admin'', ''secret''), Accept = acceptHeader\<rparr>,
         Stdout (TotalSize 157 ''api'')]) \<and>
   map (\<lambda>l. (Digest l, Size l))
     (all_layers [fst (fst (ImageManifest demo_env demo_registry ''api'' ''1'' [])),
                  fst (fst (ImageManifest demo_env demo_registry ''api'' ''2'' []))])
     = [(''sha256:aa'', 100), (''sha256:bb'', 50), (''sha256:aa'', 100), (''sha256:cc'', 7)]"
proof -
  define m1 where "m1 = zero_ImageManifest\<lparr>SchemaVersion := 2,
               Layers := [demo_layer ''sha256:aa'' 100, demo_layer ''sha256:bb'' 50]\<rparr>"
  define m2 where "m2 = zero_ImageManifest\<lparr>SchemaVersion := 2,
               Layers := [demo_layer ''sha256:aa'' 100, demo_layer ''sha256:cc'' 7]\<rparr>"
  define q0 where "q0 = Sent \<lparr>Method = ''GET'', URL = tagsURL demo_registry ''api'',
               BasicAuth = (''admin'', ''secret''), Accept = acceptHeader\<rparr>"
  define q1 where "q1 = Sent \<lparr>Method = ''GET'', URL = manifestURL demo_registry ''api'' ''1'',
               BasicAuth = (''admin'', ''secret''), Accept = acceptHeader\<rparr>"
  define q2 where "q2 = Sent \<lparr>Method = ''GET'', URL = manifestURL demo_registry ''api'' ''2'',
               BasicAuth = (''admin'', ''secret''), Accept = acceptHeader\<rparr>"
  have n: "''api'' \<noteq> []" by simp
  have r: "NewRegistry demo_env = (demo_registry, None)"
    by (simp add: NewRegistry_def demo_env_def)
  have t: "ListTagsByImage demo_env demo_registry ''api'' [] = (([''1'', ''2''], None), [q0])"
    by (simp add: q0_def ListTagsByImage_def do_request_def zero_imageTags_def demo_defs)
  have f: "fetch_manifests demo_env demo_registry ''api'' [''1'', ''2''] [q0]
      = (Inr [m1, m2], [q0, q1, q2])"
    by (simp add: m1_def m2_def q0_def q1_def q2_def ImageManifest_def do_request_def demo_defs)
  have ls: "all_layers [m1, m2] = [demo_layer ''sha256:aa'' 100, demo_layer ''sha256:bb'' 50,
      demo_layer ''sha256:aa'' 100, demo_layer ''sha256:cc'' 7]"
    by (simp add: all_layers_def m1_def m2_def)
  have ds: "digests (all_layers [m1, m2]) = {''sha256:aa'', ''sha256:bb'', ''sha256:cc''}"
    unfolding ls by (auto simp: digests_def demo_layer_def)
  have sz: "size_of (all_layers [m1, m2]) ''sha256:aa'' = 100"
    "size_of (all_layers [m1, m2]) ''sha256:bb'' = 50"
    "size_of (all_layers [m1, m2]) ''sha256:cc'' = 7"
    unfolding ls by (simp_all add: size_of_alt demo_layer_def)
  have s: "sint (\<Sum>d \<in> digests (all_layers [m1, m2]). size_of (all_layers [m1, m2]) d) = 157"
    unfolding ds by (simp add: sz)
  have i1: "fst (fst (ImageManifest demo_env demo_registry ''api'' ''1'' [])) = m1"
    and i2: "fst (fst (ImageManifest demo_env demo_registry ''api'' ''2'' [])) = m2"
    by (simp_all add: m1_def m2_def ImageManifest_def do_request_def demo_defs)
  have a: "showTotalImageSize demo_env ''api'' [] = (None, [q0, q1, q2] @ [Stdout (TotalSize 157 ''api'')])"
    using total_size_counts_each_digest_once [OF n r t f, THEN conjunct1] unfolding s .
  have b: "map (\<lambda>l. (Digest l, Size l)) (all_layers [m1, m2])
     = [(''sha256:aa'', 100), (''sha256:bb'', 50), (''sha256:aa'', 100), (''sha256:cc'', 7)]"
    unfolding ls by (simp add: demo_layer_def)
  show ?thesis
    using a b unfolding i1 i2 q0_def q1_def q2_def by simp
qed

section \<open>Which tags retention deletes\<close>

lemmas sort_eval = Compare_Sort_def compareStringNumber_def extractNumberFromString_def
  firstDigitRun_def parseDecimal_def isDigit_def digitValue_def

lemma insert_less_insort_key:
  "insert_less compareStringNumber x ys = insort_key extractNumberFromString x ys"
  by (induction ys) (auto simp: compareStringNumber_def)

lemma Compare_Sort_sort_key:
  "Compare_Sort compareStringNumber xs = sort_key extractNumberFromString xs"
proof -
  have "insert_less compareStringNumber = insort_key extractNumberFromString"
    by (intro ext) (rule insert_less_insort_key)
  then show ?thesis
    by (simp add: Compare_Sort_def sort_key_def)
qed

lemma announced_append: "announced (xs @ ys) = announced xs @ announced ys"
  by (induction xs rule: announced.induct) simp_all

lemma announced_do_request: "announced (snd (do_request e r m u a tr)) = announced tr"
  by (simp add: do_request_def Let_def announced_append split: option.splits)

lemma announced_SearchAssets: "announced (snd (SearchAssets e r img tag tr)) = announced tr"
  using announced_do_request [of e r "''GET''" "searchURL r img tag" acceptHeaderJson tr]
  by (auto simp: SearchAssets_def split: prod.splits sum.splits)

lemma announced_DeleteImageByTagByAssetId:
  "announced (snd (DeleteImageByTagByAssetId e r assetId img tag tr)) = announced tr"
  using announced_do_request [of e r "''DELETE''" "assetURL r assetId" acceptHeaderJson tr]
  by (auto simp: DeleteImageByTagByAssetId_def split: prod.splits sum.splits)

lemma announced_DeleteImageByTag:
  "announced (snd (DeleteImageByTag e r img tag tr)) = announced tr"
proof -
  obtain assets err tr1 where s: "SearchAssets e r img tag tr = ((assets, err), tr1)"
    by (metis prod.exhaust)
  have a1: "announced tr1 = announced tr"
    using announced_SearchAssets [of e r img tag tr] s by simp
  show ?thesis
    using s a1 announced_DeleteImageByTagByAssetId [of e r _ img tag tr1]
    by (auto simp: DeleteImageByTag_def index_def Let_def announced_append
        split: option.splits)
qed

lemma delete_loop_announced:
  "delete_loop e r imgName ts tr = (res, tr') \<Longrightarrow>
     (\<exists>k\<le>length ts. announced tr' = announced tr @ map (Pair imgName) (take k ts)) \<and>
     (\<forall>x. res = Returned x \<longrightarrow> announced tr' = announced tr @ map (Pair imgName) ts)"
proof (induction ts arbitrary: tr)
  case Nil
  then show ?case by simp
next
  case (Cons tag ts)
  obtain out tr2 where d:
    "DeleteImageByTag e r imgName tag (tr @ [Stdout (WillBeDeleted imgName tag)]) = (out, tr2)"
    by (metis prod.exhaust)
  have a2: "announced tr2 = announced tr @ [(imgName, tag)]"
    using announced_DeleteImageByTag [of e r imgName tag "tr @ [Stdout (WillBeDeleted imgName tag)]"] d
    by (simp add: announced_append)
  show ?case
  proof (cases out)
    case (Panicked p)
    then have "res = Panicked p" "tr' = tr2"
      using Cons.prems d by simp_all
    moreover have "announced tr2 = announced tr @ map (Pair imgName) (take 1 (tag # ts))"
      using a2 by simp
    ultimately show ?thesis
      by (metis One_nat_def Suc_le_mono length_Cons outcome.distinct(1) zero_le)
  next
    case (Returned x)
    then have l: "delete_loop e r imgName ts tr2 = (res, tr')"
      using Cons.prems d by simp
    from Cons.IH [OF l] obtain k where k: "k \<le> length ts"
      "announced tr' = announced tr2 @ map (Pair imgName) (take k ts)"
      and full: "\<forall>x. res = Returned x \<longrightarrow> announced tr' = announced tr2 @ map (Pair imgName) ts"
      by blast
    have "Suc k \<le> length (tag # ts)"
      "announced tr' = announced tr @ map (Pair imgName) (take (Suc k) (tag # ts))"
      using k a2 by simp_all
    moreover have "\<forall>x. res = Returned x \<longrightarrow>
        announced tr' = announced tr @ map (Pair imgName) (tag # ts)"
      using full a2 by simp
    ultimately show ?thesis
      by blast
  qed
qed

lemma ListTagsByImage_trace:
  "ListTagsByImage e r img tr = ((tags, None), tr1) \<Longrightarrow>
     announced tr1 = announced tr \<and> deletes tr1 = deletes tr"
  by (auto simp: ListTagsByImage_def do_request_def Let_def announced_append deletes_def sent_append
      split: option.splits sum.splits if_splits)

lemma gets_append: "gets (xs @ ys) = gets xs @ gets ys"
  by (simp add: gets_def sent_append)

lemma gets_Stdout: "gets [Stdout m] = []"
  by (simp add: gets_def)

lemma ListTagsByImage_ok:
  "ListTagsByImage e r img tr = ((tags, None), tr1) \<Longrightarrow>
     tr1 = tr @ [Sent \<lparr>Method = ''GET'', URL = tagsURL r img,
                       BasicAuth = (Username r, Password r), Accept = acceptHeader\<rparr>]"
  by (auto simp: ListTagsByImage_def do_request_def Let_def split: option.splits sum.splits if_splits)

lemma gets_DeleteImageByTagByAssetId:
  "gets (snd (DeleteImageByTagByAssetId e r assetId img tag tr)) = gets tr"
  by (auto simp: DeleteImageByTagByAssetId_def do_request_def Let_def gets_def sent_append
      split: option.splits sum.splits)

lemma gets_DeleteImageByTag:
  assumes "http_NewRequest e ''GET'' (searchURL r img tag) = None"
  shows "gets (snd (DeleteImageByTag e r img tag tr)) = gets tr @ [searchURL r img tag]"
proof -
  obtain assets err tr1 where s: "SearchAssets e r img tag tr = ((assets, err), tr1)"
    by (metis prod.exhaust)
  have "tr1 = tr @ [Sent \<lparr>Method = ''GET'', URL = searchURL r img tag,
                       BasicAuth = (Username r, Password r), Accept = acceptHeaderJson\<rparr>]"
    using s assms by (auto simp: SearchAssets_def do_request_def Let_def split: sum.splits if_splits)
  then have g1: "gets tr1 = gets tr @ [searchURL r img tag]"
    by (simp add: gets_def sent_append)
  show ?thesis
    using s g1 gets_DeleteImageByTagByAssetId [of e r _ img tag tr1]
    by (auto simp: DeleteImageByTag_def index_def Let_def gets_append gets_Stdout
        split: option.splits)
qed

lemma delete_loop_deleteTag_each:
  "deleteTag_each e r imgName ts tr = Some tr' \<Longrightarrow>
     delete_loop e r imgName ts tr = (Returned None, tr')"
proof (induction ts arbitrary: tr)
  case Nil
  then show ?case by simp
next
  case (Cons tag ts)
  then show ?case
    by (auto split: prod.splits outcome.splits)
qed

lemma gets_deleteTag_each:
  "deleteTag_each e r imgName ts tr = Some tr' \<Longrightarrow>
     \<forall>t\<in>set ts. http_NewRequest e ''GET'' (searchURL r imgName t) = None \<Longrightarrow>
     gets tr' = gets tr @ map (searchURL r imgName) ts"
proof (induction ts arbitrary: tr)
  case Nil
  then show ?case by simp
next
  case (Cons tag ts)
  obtain out tr2 where d:
    "DeleteImageByTag e r imgName tag (tr @ [Stdout (WillBeDeleted imgName tag)]) = (out, tr2)"
    by (metis prod.exhaust)
  have n: "http_NewRequest e ''GET'' (searchURL r imgName tag) = None"
    using Cons.prems(2) by simp
  have g2: "gets tr2 = gets tr @ [searchURL r imgName tag]"
    using gets_DeleteImageByTag [OF n, of "tr @ [Stdout (WillBeDeleted imgName tag)]"] d
    by (simp add: gets_append gets_Stdout)
  obtain x where "out = Returned x" and l: "deleteTag_each e r imgName ts tr2 = Some tr'"
    using Cons.prems(1) d by (cases out) simp_all
  from Cons.IH [OF l] Cons.prems(2) have "gets tr' = gets tr2 @ map (searchURL r imgName) ts"
    by simp
  then show ?case
    using g2 by simp
qed

text \<open>
  Claim C5, as amended.  For an image name, an empty tag flag and a keep count of at least
  1, once the tags are listed: the sorted tags are a permutation of the listed ones, ascending
  by extracted number (so \<^verbatim>\<open>v10, v2, v1, latest\<close> becomes \<^verbatim>\<open>latest, v1, v2, v10\<close>).  If
  \<open>keep \<le> len(tags)\<close> and no call of \<^verbatim>\<open>DeleteImageByTag\<close> panics, \<^verbatim>\<open>deleteImage\<close>
  announces and calls \<^verbatim>\<open>DeleteImageByTag\<close> for exactly the first \<open>len(tags) - keep\<close> sorted
  tags, in ascending order, and returns nil: its trace is the trace of those calls, the lines
  announce those tags, and (when the requests can be built) the searches sent after the tag
  list are the searches for those tags.  With or without a panic, the tags announced are a
  prefix of them.  If \<open>len(tags) \<le> keep\<close>, no tag is announced and no DELETE is sent, and if
  \<open>len(tags) < keep\<close> the count available is printed.  At keep 0 the usage message is
  printed and nothing else happens.
\<close>

theorem retention_deletes_oldest:
  assumes "imgName \<noteq> []"
    and "NewRegistry e = (r, None)"
    and "0 < keep"
    and "ListTagsByImage e r imgName tr = ((tags0, None), tr1)"
    and "tags = Compare_Sort compareStringNumber tags0"
  shows "sorted (map extractNumberFromString tags) \<and> mset tags = mset tags0 \<and>
         (keep \<le> int (length tags) \<longrightarrow>
            (\<forall>tr'. deleteTag_each e r imgName (take (length tags - nat keep) tags) tr1 = Some tr' \<longrightarrow>
               deleteImage e imgName [] keep tr = (Returned None, tr') \<and>
               announced tr' = announced tr
                 @ map (Pair imgName) (take (length tags - nat keep) tags) \<and>
               ((\<forall>t\<in>set (take (length tags - nat keep) tags).
                    http_NewRequest e ''GET'' (searchURL r imgName t) = None) \<longrightarrow>
                  gets tr' = gets tr @ [tagsURL r imgName]
                    @ map (searchURL r imgName) (take (length tags - nat keep) tags))) \<and>
            (\<exists>k\<le>length tags - nat keep.
               announced (snd (deleteImage e imgName [] keep tr))
                 = announced tr @ map (Pair imgName) (take k tags))) \<and>
         (int (length tags) \<le> keep \<longrightarrow>
            fst (deleteImage e imgName [] keep tr) = Returned None \<and>
            announced (snd (deleteImage e imgName [] keep tr)) = announced tr \<and>
            deletes (snd (deleteImage e imgName [] keep tr)) = deletes tr \<and>
            gets (snd (deleteImage e imgName [] keep tr)) = gets tr @ [tagsURL r imgName]) \<and>
         (int (length tags) < keep \<longrightarrow>
            deleteImage e imgName [] keep tr
              = (Returned None, tr1 @ [Stdout (OnlyAvailable (length tags))])) \<and>
         deleteImage e imgName [] 0 tr
           = (Returned None, tr @ [Stdout SpecifyTagOrKeep, ShowSubcommandHelp]) \<and>
         Compare_Sort compareStringNumber [''v10'', ''v2'', ''v1'', ''latest'']
           = [''latest'', ''v1'', ''v2'', ''v10'']"
proof -
  let ?n = "length tags - nat keep"
  have srt: "sorted (map extractNumberFromString tags)" and perm: "mset tags = mset tags0"
    using assms(5) by (simp_all add: Compare_Sort_sort_key)
  note t1 = ListTagsByImage_trace [OF assms(4)]
  have g1: "gets tr1 = gets tr @ [tagsURL r imgName]"
    using ListTagsByImage_ok [OF assms(4)] by (simp add: gets_def sent_append)
  have ge: "deleteImage e imgName [] keep tr = delete_loop e r imgName (take ?n tags) tr1"
    if "keep \<le> int (length tags)"
  proof -
    have "int (length tags) - keep \<le> int (length tags)" "0 \<le> int (length tags) - keep"
      "nat (int (length tags) - keep) = ?n"
      using that assms(3) by simp_all
    then have "slice_to tags (int (length tags) - keep) = Returned (take ?n tags)"
      by (simp add: slice_to_def)
    then show ?thesis
      using assms(1,2,3,4) that
      by (simp add: deleteImage_def Let_def assms(5) [symmetric])
  qed
  have ge_each: "deleteImage e imgName [] keep tr = (Returned None, tr') \<and>
      announced tr' = announced tr @ map (Pair imgName) (take ?n tags) \<and>
      ((\<forall>t\<in>set (take ?n tags). http_NewRequest e ''GET'' (searchURL r imgName t) = None) \<longrightarrow>
         gets tr' = gets tr @ [tagsURL r imgName] @ map (searchURL r imgName) (take ?n tags))"
    if "keep \<le> int (length tags)" "deleteTag_each e r imgName (take ?n tags) tr1 = Some tr'" for tr'
  proof -
    have l: "delete_loop e r imgName (take ?n tags) tr1 = (Returned None, tr')"
      using delete_loop_deleteTag_each [OF that(2)] .
    have a: "announced tr' = announced tr @ map (Pair imgName) (take ?n tags)"
      using delete_loop_announced [OF l] t1 by simp
    have g: "gets tr' = gets tr @ [tagsURL r imgName] @ map (searchURL r imgName) (take ?n tags)"
      if "\<forall>t\<in>set (take ?n tags). http_NewRequest e ''GET'' (searchURL r imgName t) = None"
      using gets_deleteTag_each [OF \<open>deleteTag_each e r imgName (take ?n tags) tr1 = Some tr'\<close> that] g1
      by simp
    show ?thesis
      using ge [OF that(1)] l a g by simp
  qed
  have ge_any: "\<exists>k\<le>?n. announced (snd (deleteImage e imgName [] keep tr))
                 = announced tr @ map (Pair imgName) (take k tags)"
    if "keep \<le> int (length tags)"
  proof -
    obtain res tr' where l: "delete_loop e r imgName (take ?n tags) tr1 = (res, tr')"
      by (metis prod.exhaust)
    from delete_loop_announced [OF l] obtain k where k: "k \<le> length (take ?n tags)"
      "announced tr' = announced tr1 @ map (Pair imgName) (take k (take ?n tags))"
      by blast
    have "k \<le> ?n" using k(1) by simp
    moreover have "take k (take ?n tags) = take k tags"
      using \<open>k \<le> ?n\<close> by (simp add: min_def)
    ultimately show ?thesis
      using ge [OF that] l k(2) t1 by auto
  qed
  have lt: "deleteImage e imgName [] keep tr
              = (Returned None, tr1 @ [Stdout (OnlyAvailable (length tags))])"
    if "int (length tags) < keep"
    using assms(1,2,3,4) that by (simp add: deleteImage_def Let_def assms(5) [symmetric])
  have eq: "deleteImage e imgName [] keep tr = (Returned None, tr1)"
    if "int (length tags) = keep"
  proof -
    have "?n = 0" using that by simp
    then show ?thesis
      using ge that by simp
  qed
  have le_tr: "fst (deleteImage e imgName [] keep tr) = Returned None \<and>
            announced (snd (deleteImage e imgName [] keep tr)) = announced tr \<and>
            deletes (snd (deleteImage e imgName [] keep tr)) = deletes tr \<and>
            gets (snd (deleteImage e imgName [] keep tr)) = gets tr @ [tagsURL r imgName]"
    if "int (length tags) \<le> keep"
  proof (cases "int (length tags) = keep")
    case True
    then show ?thesis
      using eq t1 g1 by simp
  next
    case False
    then have "int (length tags) < keep" using that by simp
    then show ?thesis
      using lt t1 g1 by (simp add: announced_append deletes_def gets_def sent_append)
  qed
  have zero: "deleteImage e imgName [] 0 tr
           = (Returned None, tr @ [Stdout SpecifyTagOrKeep, ShowSubcommandHelp])"
    using assms(1,2) by (simp add: deleteImage_def)
  have ex: "Compare_Sort compareStringNumber [''v10'', ''v2'', ''v1'', ''latest'']
           = [''latest'', ''v1'', ''v2'', ''v10'']"
    by (simp add: sort_eval)
  show ?thesis
    using srt perm ge_each ge_any le_tr lt zero ex by blast
qed

theorem retention_deletes_oldest_witness:
  "deleteImage demo_env ''app'' [] 1 []
     = (Returned None,
        [Sent \<lparr>Method = ''GET'', URL = tagsURL demo_registry ''app'',
               BasicAuth = (''admin'', ''secret''), Accept = acceptHeader\<rparr>,
         Stdout (WillBeDeleted ''app'' ''latest''),
         Sent \<lparr>Method = ''GET'', URL = searchURL demo_registry ''app'' ''latest'',
               BasicAuth = (''admin'', ''secret''), Accept = acceptHeaderJson\<rparr>,
         Stdout (WillBeDeleted ''app'' ''v1''),
         Sent \<lparr>Method = ''GET'', URL = searchURL demo_registry ''app'' ''v1'',
               BasicAuth = (''admin'', ''secret''), Accept = acceptHeaderJson\<rparr>,
         Sent \<lparr>Method = ''DELETE'', URL = assetURL demo_registry ''a1'',
               BasicAuth = (''admin'', ''secret''), Accept = acceptHeaderJson\<rparr>,
         Stdout (SuccessfulDeleted ''app'' ''v1''),
         Stdout (WillBeDeleted ''app'' ''v2''),
         Sent \<lparr>Method = ''GET'', URL = searchURL demo_registry ''app'' ''v2'',
               BasicAuth = (''admin'', ''secret''), Accept = acceptHeaderJson\<rparr>,
         Stdout (NoAssetsFound ''app'' ''v2'')]) \<and>
   announced (snd (deleteImage demo_env ''app'' [] 1 []))
     = [(''app'', ''latest''), (''app'', ''v1''), (''app'', ''v2'')] \<and>
   gets (snd (deleteImage demo_env ''app'' [] 1 []))
     = [tagsURL demo_registry ''app'', searchURL demo_registry ''app'' ''latest'',
        searchURL demo_registry ''app'' ''v1'', searchURL demo_registry ''app'' ''v2''] \<and>
   deleteImage demo_env ''app'' [] 5 []
     = (Returned None,
        [Sent \<lparr>Method = ''GET'', URL = tagsURL demo_registry ''app'',
               BasicAuth = (''admin'', ''secret''), Accept = acceptHeader\<rparr>,
         Stdout (OnlyAvailable 4)]) \<and>
   deletes (snd (deleteImage demo_env ''app'' [] 4 [])) = [] \<and>
   deleteImage demo_env ''app'' [] 0 []
     = (Returned None, [Stdout SpecifyTagOrKeep, ShowSubcommandHelp])"
proof -
  define q0 where "q0 = Sent \<lparr>Method = ''GET'', URL = tagsURL demo_registry ''app'',
               BasicAuth = (''admin'', ''secret''), Accept = acceptHeader\<rparr>"
  define run where "run = [q0,
         Stdout (WillBeDeleted ''app'' ''latest''),
         Sent \<lparr>Method = ''GET'', URL = searchURL demo_registry ''app'' ''latest'',
               BasicAuth = (''admin'', ''secret''), Accept = acceptHeaderJson\<rparr>,
         Stdout (WillBeDeleted ''app'' ''v1''),
         Sent \<lparr>Method = ''GET'', URL = searchURL demo_registry ''app'' ''v1'',
               BasicAuth = (''admin'', ''secret''), Accept = acceptHeaderJson\<rparr>,
         Sent \<lparr>Method = ''DELETE'', URL = assetURL demo_registry ''a1'',
               BasicAuth = (''admin'', ''secret''), Accept = acceptHeaderJson\<rparr>,
         Stdout (SuccessfulDeleted ''app'' ''v1''),
         Stdout (WillBeDeleted ''app'' ''v2''),
         Sent \<lparr>Method = ''GET'', URL = searchURL demo_registry ''app'' ''v2'',
               BasicAuth = (''admin'', ''secret''), Accept = acceptHeaderJson\<rparr>,
         Stdout (NoAssetsFound ''app'' ''v2'')]"
  have n: "''app'' \<noteq> []" by simp
  have r: "NewRegistry demo_env = (demo_registry, None)"
    by (simp add: NewRegistry_def demo_env_def)
  have k1: "(0::int) < 1" and k4: "(0::int) < 4" and k5: "(0::int) < 5" by simp_all
  have t: "ListTagsByImage demo_env demo_registry ''app'' []
      = (([''v10'', ''v2'', ''v1'', ''latest''], None), [q0])"
    by (simp add: q0_def ListTagsByImage_def do_request_def zero_imageTags_def demo_defs)
  have s: "[''latest'', ''v1'', ''v2'', ''v10'']
      = Compare_Sort compareStringNumber [''v10'', ''v2'', ''v1'', ''latest'']"
    by (simp add: sort_eval)
  have le1: "(1::int) \<le> int (length [''latest'', ''v1'', ''v2'', ''v10''])"
    and le4: "int (length [''latest'', ''v1'', ''v2'', ''v10'']) \<le> 4"
    and lt5: "int (length [''latest'', ''v1'', ''v2'', ''v10'']) < 5"
    by simp_all
  have each: "deleteTag_each demo_env demo_registry ''app''
      (take (length [''latest'', ''v1'', ''v2'', ''v10''] - nat 1) [''latest'', ''v1'', ''v2'', ''v10''])
      [q0] = Some run"
    by (simp add: run_def q0_def run_defs demo_defs)
  have nr: "\<forall>t\<in>set (take (length [''latest'', ''v1'', ''v2'', ''v10''] - nat 1)
        [''latest'', ''v1'', ''v2'', ''v10'']).
      http_NewRequest demo_env ''GET'' (searchURL demo_registry ''app'' t) = None"
    by (simp add: demo_env_def)
  note a = retention_deletes_oldest [OF n r k1 t s, THEN conjunct2, THEN conjunct2,
      THEN conjunct1, THEN mp, OF le1, THEN conjunct1, THEN spec, THEN mp, OF each]
  have a1: "deleteImage demo_env ''app'' [] 1 [] = (Returned None, run)"
    using a [THEN conjunct1] .
  have a2: "announced (snd (deleteImage demo_env ''app'' [] 1 []))
     = [(''app'', ''latest''), (''app'', ''v1''), (''app'', ''v2'')]"
    using a [THEN conjunct2, THEN conjunct1] unfolding a1 by simp
  have a3: "gets (snd (deleteImage demo_env ''app'' [] 1 []))
     = [tagsURL demo_registry ''app'', searchURL demo_registry ''app'' ''latest'',
        searchURL demo_registry ''app'' ''v1'', searchURL demo_registry ''app'' ''v2'']"
    using a [THEN conjunct2, THEN conjunct2, THEN mp, OF nr] unfolding a1
    by (simp add: gets_def)
  have b: "deleteImage demo_env ''app'' [] 5 [] = (Returned None, [q0, Stdout (OnlyAvailable 4)])"
    using retention_deletes_oldest [OF n r k5 t s, THEN conjunct2, THEN conjunct2,
      THEN conjunct2, THEN conjunct2, THEN conjunct1, THEN mp, OF lt5] by simp
  have c: "deletes (snd (deleteImage demo_env ''app'' [] 4 [])) = []"
    using retention_deletes_oldest [OF n r k4 t s, THEN conjunct2, THEN conjunct2,
      THEN conjunct2, THEN conjunct1, THEN mp, OF le4, THEN conjunct2, THEN conjunct2,
      THEN conjunct1] by (simp add: deletes_def)
  have d: "deleteImage demo_env ''app'' [] 0 []
     = (Returned None, [Stdout SpecifyTagOrKeep, ShowSubcommandHelp])"
    using retention_deletes_oldest [OF n r k1 t s, THEN conjunct2, THEN conjunct2,
      THEN conjunct2, THEN conjunct2, THEN conjunct2, THEN conjunct1] by simp
  show ?thesis
    using a1 a2 a3 b c d unfolding run_def q0_def by simp
qed

text \<open>
  The claim as stated fails at keep 0, which the command takes for ``no keep count given'':
  with four tags listed and \<open>4 \<ge> 0\<close>, it prints the usage message and deletes none of the
  four.  It also fails where a call panics: with the tags \<^verbatim>\<open>v10, v3, v12\<close> and keep 1 the
  first two sorted tags are \<^verbatim>\<open>v3, v10\<close>, but the call for \<^verbatim>\<open>v3\<close> panics and \<^verbatim>\<open>v10\<close>
  is never reached.
\<close>

theorem retention_keep_zero_counterexample:
  "fst (ListTagsByImage demo_env demo_registry ''app'' [])
     = ([''v10'', ''v2'', ''v1'', ''latest''], None) \<and>
   Compare_Sort compareStringNumber [''v10'', ''v2'', ''v1'', ''latest'']
     = [''latest'', ''v1'', ''v2'', ''v10''] \<and>
   (0::int) \<le> int (length [''latest'', ''v1'', ''v2'', ''v10'']) \<and>
   deleteImage demo_env ''app'' [] 0 []
     = (Returned None, [Stdout SpecifyTagOrKeep, ShowSubcommandHelp]) \<and>
   announced (snd (deleteImage demo_env ''app'' [] 0 []))
     \<noteq> map (Pair ''app'')
         (take (length [''latest'', ''v1'', ''v2'', ''v10''] - nat 0)
            [''latest'', ''v1'', ''v2'', ''v10'']) \<and>
   fst (ListTagsByImage bare_env demo_registry ''app'' []) = ([''v10'', ''v3'', ''v12''], None) \<and>
   Compare_Sort compareStringNumber [''v10'', ''v3'', ''v12''] = [''v3'', ''v10'', ''v12''] \<and>
   fst (deleteImage bare_env ''app'' [] 1 []) = Panicked (IndexOutOfRange 0 0) \<and>
   gets (snd (deleteImage bare_env ''app'' [] 1 []))
     = [tagsURL demo_registry ''app'', searchURL demo_registry ''app'' ''v3''] \<and>
   gets (snd (deleteImage bare_env ''app'' [] 1 []))
     \<noteq> [tagsURL demo_registry ''app'', searchURL demo_registry ''app'' ''v3'',
         searchURL demo_registry ''app'' ''v10'']"
  by (simp add: deleteImage_def slice_to_def gets_def bare_env_def sort_eval run_defs demo_defs)

end
